theory Spec2Isabelle
  imports Main "HOL-Library.Sublist" "HOL-Library.AList"
begin

section \<open>JavaScript string primitives used by the sources\<close>

text \<open>
  Strings are byte strings. \<open>toLowerCase\<close> is modelled on the ASCII letters, the
  only characters on which the keyword tests of the sources depend.
\<close>

definition lower_char :: "char \<Rightarrow> char" where
  "lower_char c =
     (case map_of (zip ''ABCDEFGHIJKLMNOPQRSTUVWXYZ'' ''abcdefghijklmnopqrstuvwxyz'') c of
        Some l \<Rightarrow> l
      | None \<Rightarrow> c)"

definition toLowerCase :: "string \<Rightarrow> string" where
  "toLowerCase s = map lower_char s"

text \<open>\<open>s.startsWith(p)\<close> and \<open>s.includes(sub)\<close>.\<close>

fun startsWith :: "string \<Rightarrow> string \<Rightarrow> bool" where
  "startsWith s [] = True"
| "startsWith [] (p # ps) = False"
| "startsWith (c # cs) (p # ps) = (c = p \<and> startsWith cs ps)"

fun str_includes :: "string \<Rightarrow> string \<Rightarrow> bool" where
  "str_includes [] sub = (sub = [])"
| "str_includes (c # cs) sub = (startsWith (c # cs) sub \<or> str_includes cs sub)"

text \<open>\<open>s.split('.').pop()\<close>: the text after the last dot, the whole string when there is none.\<close>

definition split_dot_pop :: "string \<Rightarrow> string" where
  "split_dot_pop s = rev (takeWhile (\<lambda>c. c \<noteq> CHR ''.'') (rev s))"

definition is_digit :: "char \<Rightarrow> bool" where
  "is_digit c = (c \<in> set ''0123456789'')"

text \<open>
  The regular expression \<open>\d+\.\d+\.\d+\<close> matched at the head of a string: a run of
  digits, a dot, a run of digits, a dot, a digit. A run of digits before a dot is
  necessarily the maximal one, since the dot is no digit.
\<close>

definition semver_here :: "string \<Rightarrow> bool" where
  "semver_here s =
     (let d1 = takeWhile is_digit s; r1 = dropWhile is_digit s in
      d1 \<noteq> [] \<and>
      (case r1 of
         [] \<Rightarrow> False
       | c1 # r2 \<Rightarrow>
           c1 = CHR ''.'' \<and>
           (let d2 = takeWhile is_digit r2; r3 = dropWhile is_digit r2 in
            d2 \<noteq> [] \<and>
            (case r3 of
               [] \<Rightarrow> False
             | c2 # r4 \<Rightarrow> c2 = CHR ''.'' \<and> (case r4 of [] \<Rightarrow> False | c3 # _ \<Rightarrow> is_digit c3)))))"

text \<open>\<open>/v?\d+\.\d+\.\d+/.test(s)\<close>: the pattern is not anchored, the optional \<open>v\<close> never decides.\<close>

fun semver_test :: "string \<Rightarrow> bool" where
  "semver_test [] = False"
| "semver_test (c # cs) = (semver_here (c # cs) \<or> semver_test cs)"

section \<open>GitHub records (src/github/types.ts)\<close>

datatype file_status = added | removed | modified | renamed

text \<open>\<open>additions\<close> and \<open>deletions\<close> are JavaScript numbers holding integers.\<close>

record GitHubFile =
  filename :: string
  status :: file_status
  additions :: int
  deletions :: int
  changes :: int
  patch :: "string option"
  blob_url :: string

text \<open>
  \<open>GitHubCommit\<close>, with the nested \<open>commit.message\<close>, \<open>commit.author.name\<close> and
  \<open>commit.author.date\<close> flattened; \<open>files\<close> and \<open>parents\<close> are optional fields.
\<close>

record GitHubCommit =
  sha :: string
  commit_message :: string
  commit_author_name :: string
  commit_author_date :: string
  files :: "GitHubFile list option"
  parents :: "string list option"

section \<open>CommitAnalyzer (src/github/analyzer.ts)\<close>

datatype category = Feature | Fix | Refactor | Test | Docs | Other

record CommitAnalysis =
  a_sha :: string
  isLearningWorthy :: bool
  a_category :: category
  reason :: string
  fileTypes :: "string list"
  linesChanged :: int

text \<open>\<open>getFileTypes\<close>: the set of non-empty lowercased extensions, in insertion order.\<close>

definition getFileTypes :: "GitHubFile list \<Rightarrow> string list" where
  "getFileTypes fs =
     foldl (\<lambda>extensions file.
              (let ext = toLowerCase (split_dot_pop (filename file)) in
               if ext \<noteq> [] \<and> ext \<notin> set extensions then extensions @ [ext] else extensions))
           [] fs"

definition getTotalLinesChanged :: "GitHubFile list \<Rightarrow> int" where
  "getTotalLinesChanged fs = foldl (\<lambda>total file. total + additions file + deletions file) 0 fs"

definition configExtensions :: "string list" where
  "configExtensions = [''json'', ''yml'', ''yaml'', ''toml'', ''ini'', ''config'']"

definition configNames :: "string list" where
  "configNames = [''package.json'', ''package-lock.json'', ''yarn.lock'', ''.gitignore'', ''dockerfile'']"

definition isConfigFile :: "GitHubFile \<Rightarrow> bool" where
  "isConfigFile file =
     (let ext = toLowerCase (split_dot_pop (filename file));
          name = toLowerCase (filename file) in
      ext \<in> set configExtensions \<or> list_ex (\<lambda>configName. str_includes name configName) configNames)"

definition hasOnlyConfigFiles :: "GitHubFile list \<Rightarrow> bool" where
  "hasOnlyConfigFiles fs = list_all isConfigFile fs"

definition isTestFile :: "GitHubFile \<Rightarrow> bool" where
  "isTestFile file =
     (str_includes (filename file) ''test'' \<or> str_includes (filename file) ''spec'' \<or>
      str_includes (filename file) ''__tests__'')"

text \<open>
  \<open>testFiles.length > files.length * 0.7\<close>. The product is a double; the comparison
  with the integer on the left is written over the integers as \<open>10 * t > 7 * n\<close>. The
  two agree whenever \<open>7 * n / 10\<close> is no integer (the double is then at distance at least
  0.1 from every integer) and at \<open>n = 0\<close> and \<open>n = 10\<close>, where the double product is
  exactly 0 and 7; these are all the lengths up to 15 that \<open>analyzeCommit\<close> lets through
  (the first length at which the two differ is 90).
\<close>

definition hasMainlyTestFiles :: "GitHubFile list \<Rightarrow> bool" where
  "hasMainlyTestFiles fs = (10 * length (filter isTestFile fs) > 7 * length fs)"

definition docExtensions :: "string list" where
  "docExtensions = [''md'', ''txt'', ''rst'']"

definition isDocFile :: "GitHubFile \<Rightarrow> bool" where
  "isDocFile file =
     (let ext = toLowerCase (split_dot_pop (filename file)) in
      ext \<in> set docExtensions \<or> str_includes (toLowerCase (filename file)) ''readme'')"

definition hasMainlyDocFiles :: "GitHubFile list \<Rightarrow> bool" where
  "hasMainlyDocFiles fs = (10 * length (filter isDocFile fs) > 7 * length fs)"

definition isVersionBump :: "string \<Rightarrow> bool" where
  "isVersionBump message =
     (semver_test message \<and>
      (str_includes message ''bump'' \<or> str_includes message ''release'' \<or>
       str_includes message ''version''))"

text \<open>\<open>categorizeCommit\<close> receives the lowercased message.\<close>

definition categorizeCommit :: "string \<Rightarrow> GitHubFile list \<Rightarrow> category" where
  "categorizeCommit message fs =
     (if str_includes message ''add'' \<or> str_includes message ''feat'' \<or>
         str_includes message ''implement'' then Feature
      else if str_includes message ''fix'' \<or> str_includes message ''bug'' \<or>
         str_includes message ''resolve'' then Fix
      else if str_includes message ''refactor'' \<or> str_includes message ''improve'' \<or>
         str_includes message ''clean'' then Refactor
      else if str_includes message ''test'' \<or> hasMainlyTestFiles fs then Test
      else if str_includes message ''doc'' \<or> str_includes message ''readme'' \<or>
         hasMainlyDocFiles fs then Docs
      else Other)"

text \<open>The files a commit record carries: \<open>commit.files || []\<close>.\<close>

definition filesOrEmpty :: "GitHubCommit \<Rightarrow> GitHubFile list" where
  "filesOrEmpty commit = (case files commit of None \<Rightarrow> [] | Some l \<Rightarrow> l)"

text \<open>The object literal \<open>analysis\<close> that \<open>analyzeCommit\<close> starts from.\<close>

definition initialAnalysis :: "GitHubCommit \<Rightarrow> CommitAnalysis" where
  "initialAnalysis commit =
     (let fs = filesOrEmpty commit in
      \<lparr> a_sha = sha commit, isLearningWorthy = False, a_category = Other, reason = [],
        fileTypes = getFileTypes fs, linesChanged = getTotalLinesChanged fs \<rparr>)"

text \<open>The \<open>switch (analysis.category)\<close> statement.\<close>

definition applyCategory :: "GitHubFile list \<Rightarrow> CommitAnalysis \<Rightarrow> CommitAnalysis" where
  "applyCategory fs analysis =
     (case a_category analysis of
        Feature \<Rightarrow> analysis\<lparr>isLearningWorthy := True, reason := ''Adds new functionality''\<rparr>
      | Fix \<Rightarrow>
          (if linesChanged analysis \<ge> 10 \<and> length fs \<le> 5
           then analysis\<lparr>isLearningWorthy := True, reason := ''Substantial bug fix''\<rparr>
           else analysis\<lparr>reason := ''Small bug fix''\<rparr>)
      | Refactor \<Rightarrow>
          (if length fs \<le> 8 \<and> linesChanged analysis \<le> 200
           then analysis\<lparr>isLearningWorthy := True, reason := ''Code improvement/refactor''\<rparr>
           else analysis\<lparr>reason := ''Large refactor (too complex)''\<rparr>)
      | Test \<Rightarrow> analysis\<lparr>isLearningWorthy := True, reason := ''Adds or improves tests''\<rparr>
      | Docs \<Rightarrow> analysis\<lparr>reason := ''Not a clear feature/improvement''\<rparr>
      | Other \<Rightarrow> analysis\<lparr>reason := ''Not a clear feature/improvement''\<rparr>)"

text \<open>The two overriding \<open>if\<close> statements that close \<open>analyzeCommit\<close>.\<close>

definition applyConfigOverride :: "GitHubFile list \<Rightarrow> CommitAnalysis \<Rightarrow> CommitAnalysis" where
  "applyConfigOverride fs analysis =
     (if hasOnlyConfigFiles fs
      then analysis\<lparr>isLearningWorthy := False, reason := ''Only configuration changes''\<rparr>
      else analysis)"

definition applyVersionOverride :: "string \<Rightarrow> CommitAnalysis \<Rightarrow> CommitAnalysis" where
  "applyVersionOverride message analysis =
     (if isVersionBump message
      then analysis\<lparr>isLearningWorthy := False, reason := ''Version bump''\<rparr>
      else analysis)"

definition analyzeCommit :: "GitHubCommit \<Rightarrow> CommitAnalysis" where
  "analyzeCommit commit =
     (let message = toLowerCase (commit_message commit);
          fs = filesOrEmpty commit;
          analysis = initialAnalysis commit in
      if length fs > 15
        then analysis\<lparr>reason := ''Too many files changed (bulk operation)''\<rparr>
      else if linesChanged analysis < 5
        then analysis\<lparr>reason := ''Very small change''\<rparr>
      else if linesChanged analysis > 500
        then analysis\<lparr>reason := ''Too many lines changed (likely auto-generated)''\<rparr>
      else applyVersionOverride message
             (applyConfigOverride fs
               (applyCategory fs (analysis\<lparr>a_category := categorizeCommit message fs\<rparr>))))"

definition analyzeCommits :: "GitHubCommit list \<Rightarrow> CommitAnalysis list" where
  "analyzeCommits commits = map analyzeCommit commits"

section \<open>GitHubClient (src/github/client.ts)\<close>

record RepoParseResult =
  owner :: string
  repo :: string
  isValid :: bool
  error :: "string option"

text \<open>
  \<open>parseRepositoryUrl\<close> is typed on strings. Its body sits in a \<open>try\<close>: a caller that
  hands over another runtime value makes \<open>url.match\<close> throw there, which the \<open>catch\<close>
  turns into a result.
\<close>

datatype js_arg = JsString string | JsNotAString

definition strip_prefix :: "string \<Rightarrow> string \<Rightarrow> string option" where
  "strip_prefix p s = (if startsWith s p then Some (drop (length p) s) else None)"

text \<open>
  The tail \<open>([^\/]+)\/([^\/\.]+)(\.git)?$\<close> shared by the three patterns. The owner
  group cannot hold a slash and is followed by one, so it ends at the first slash; the
  name group can hold neither slash nor dot, so it ends at the first of them, and what
  is left must be empty or exactly \<open>.git\<close>.
\<close>

definition match_owner_repo :: "string \<Rightarrow> (string \<times> string) option" where
  "match_owner_repo s =
     (let own = takeWhile (\<lambda>c. c \<noteq> CHR ''/'') s;
          r = dropWhile (\<lambda>c. c \<noteq> CHR ''/'') s in
      if own = [] then None
      else (case r of
              [] \<Rightarrow> None
            | _ # rest \<Rightarrow>
                (let nm = takeWhile (\<lambda>c. c \<noteq> CHR ''/'' \<and> c \<noteq> CHR ''.'') rest;
                     after = dropWhile (\<lambda>c. c \<noteq> CHR ''/'' \<and> c \<noteq> CHR ''.'') rest in
                 if nm \<noteq> [] \<and> (after = [] \<or> after = ''.git'') then Some (own, nm) else None)))"

text \<open>The three patterns, as matchers returning the groups 1 and 2.\<close>

definition pattern_https :: "string \<Rightarrow> (string \<times> string) option" where
  "pattern_https url =
     (case strip_prefix ''https://github.com/'' url of
        Some r \<Rightarrow> match_owner_repo r
      | None \<Rightarrow>
          (case strip_prefix ''http://github.com/'' url of
             Some r \<Rightarrow> match_owner_repo r
           | None \<Rightarrow> None))"

definition pattern_ssh :: "string \<Rightarrow> (string \<times> string) option" where
  "pattern_ssh url =
     (case strip_prefix ''git@github.com:'' url of Some r \<Rightarrow> match_owner_repo r | None \<Rightarrow> None)"

definition pattern_bare :: "string \<Rightarrow> (string \<times> string) option" where
  "pattern_bare url =
     (case strip_prefix ''github.com/'' url of Some r \<Rightarrow> match_owner_repo r | None \<Rightarrow> None)"

definition patterns :: "(string \<Rightarrow> (string \<times> string) option) list" where
  "patterns = [pattern_https, pattern_ssh, pattern_bare]"

text \<open>The \<open>for (const pattern of patterns)\<close> loop, ending in the invalid-format result.\<close>

fun match_first :: "(string \<Rightarrow> (string \<times> string) option) list \<Rightarrow> string \<Rightarrow> RepoParseResult" where
  "match_first [] url =
     \<lparr> owner = [], repo = [], isValid = False, error = Some ''Invalid GitHub URL format'' \<rparr>"
| "match_first (pattern # rest) url =
     (case pattern url of
        Some (g1, g2) \<Rightarrow> \<lparr> owner = g1, repo = g2, isValid = True, error = None \<rparr>
      | None \<Rightarrow> match_first rest url)"

definition parseRepositoryUrl :: "js_arg \<Rightarrow> RepoParseResult" where
  "parseRepositoryUrl arg =
     (case arg of
        JsString url \<Rightarrow> match_first patterns url
      | JsNotAString \<Rightarrow>
          \<lparr> owner = [], repo = [], isValid = False, error = Some ''Failed to parse URL'' \<rparr>)"

definition keepLearningCommit :: "GitHubCommit \<Rightarrow> bool" where
  "keepLearningCommit commit =
     (let message = toLowerCase (commit_message commit) in
      if str_includes message ''merge'' \<and>
         (str_includes message ''pull request'' \<or> str_includes message ''branch'') then False
      else if length (commit_message commit) < 10 then False
      else if str_includes message ''update'' \<and>
         (str_includes message ''dependency'' \<or> str_includes message ''package'') then False
      else if str_includes message ''format'' \<or> str_includes message ''style'' \<or>
         str_includes message ''lint'' then False
      else True)"

definition filterLearningCommits :: "GitHubCommit list \<Rightarrow> GitHubCommit list" where
  "filterLearningCommits commits = filter keepLearningCommit commits"

record GitHubRepository =
  gr_name :: string
  full_name :: string
  default_branch :: string

text \<open>
  What lies outside the program. The answers of the GitHub API are functions of the
  request; a string on the left of a sum is the message of the error thrown. The
  stores can refuse a write: each \<open>fault\<close> field gives the message of the error that
  the store throws for that write, \<open>None\<close> when it accepts it. Commit and diff writes
  are numbered by the position of the commit in the batch, status writes by the status
  written. \<open>now\<close> stands for the clock (\<open>new Date()\<close>, \<open>CURRENT_TIMESTAMP\<close>).
\<close>

datatype analysis_state = St_pending | St_analyzing | St_completed | St_error

record world =
  now :: string
  gh_repository :: "string \<Rightarrow> string \<Rightarrow> string + GitHubRepository"
  gh_commits :: "string \<Rightarrow> string \<Rightarrow> string option \<Rightarrow> nat \<Rightarrow> string + GitHubCommit list"
  d1_insert_repository_fault :: "string option"
  d1_insert_commit_fault :: "nat \<Rightarrow> string option"
  r2_put_diff_fault :: "nat \<Rightarrow> string option"
  kv_put_fault :: "analysis_state \<Rightarrow> string option"

text \<open>\<open>x || d\<close> on an optional number and on an optional string.\<close>

definition num_or :: "nat option \<Rightarrow> nat \<Rightarrow> nat" where
  "num_or x d = (case x of None \<Rightarrow> d | Some n \<Rightarrow> if n = 0 then d else n)"

definition str_or :: "string option \<Rightarrow> string \<Rightarrow> string" where
  "str_or x d = (case x of None \<Rightarrow> d | Some v \<Rightarrow> if v = [] then d else v)"

text \<open>
  \<open>getCommits\<close> sends \<open>sha\<close> only for a non-empty branch and \<open>per_page || 30\<close>.
\<close>

definition getCommits :: "world \<Rightarrow> string \<Rightarrow> string \<Rightarrow> string option \<Rightarrow> nat option \<Rightarrow> string + GitHubCommit list" where
  "getCommits w own rp branch per_page =
     gh_commits w own rp
       (case branch of None \<Rightarrow> None | Some b \<Rightarrow> if b = [] then None else Some b)
       (num_or per_page 30)"

definition getLearningCommits :: "world \<Rightarrow> string \<Rightarrow> string \<Rightarrow> string option \<Rightarrow> nat option \<Rightarrow> string + GitHubCommit list" where
  "getLearningCommits w own rp branch limit_opt =
     (let limit = num_or limit_opt 20 in
      case getCommits w own rp branch (Some (min (limit * 2) 100)) of
        Inl e \<Rightarrow> Inl e
      | Inr commits \<Rightarrow> Inr (take limit (filterLearningCommits commits)))"

section \<open>Storage (src/unnamed/part_000, src/storage/r2.ts)\<close>

text \<open>
  The rows and blobs. Field names carry a prefix where two records of the source
  share a name. The file tree that a content blob carries is left out: no operation
  modelled here reads it.
\<close>

record Repository =
  r_id :: string
  r_github_url :: string
  r_name :: string
  r_created_at :: string

record Commit =
  c_id :: string
  c_repo_id :: string
  c_sha :: string
  c_message :: string
  c_author :: string
  c_date :: string
  c_created_at :: string

record Tutorial =
  t_id :: string
  t_commit_id :: string
  t_title :: string
  t_description :: string
  t_created_at :: string

record LearnerSession =
  ls_id :: string
  ls_tutorial_id :: string
  current_step :: int
  started_at :: string
  completed_at :: "string option"

record TutorialStep =
  step_id :: string
  step_title :: string
  step_description :: string
  step_instructions :: string

record TutorialContent =
  tc_tutorial_id :: string
  steps :: "TutorialStep list"
  parentSha :: "string option"

record AnalysisStatus =
  st_repo_id :: string
  st_status :: analysis_state
  st_error_message :: "string option"
  st_started_at :: string
  st_updated_at :: string

record DiffFile =
  df_filename :: string
  df_status :: file_status
  df_additions :: int
  df_deletions :: int
  df_patch :: "string option"

record CommitDiff =
  commit_sha :: string
  diff_files :: "DiffFile list"

text \<open>
  The stores: the tables of the relational store as lists of rows in insertion order,
  the key-value store and the blob store as association lists from key to value.
  Reads are lookups in this state and do not fail; writes can fail, as the world says.
  Expiry of key-value entries is not modelled.
\<close>

record storage =
  repositories :: "Repository list"
  commits :: "Commit list"
  tutorials :: "Tutorial list"
  learner_sessions :: "LearnerSession list"
  kv :: "(string \<times> AnalysisStatus) list"
  r2_diffs :: "(string \<times> CommitDiff) list"
  r2_tutorial_content :: "(string \<times> TutorialContent) list"

text \<open>
  \<open>INSERT ... RETURNING *\<close>: the call throws when the store refuses the write (or
  returns no row) and when the primary key \<open>id\<close> is taken; otherwise the row is
  returned with its \<open>created_at\<close>. The reference of a commit row to its repository
  is not checked: \<open>ingestRepository\<close> writes commit rows only under the repository
  row it has just written.
\<close>

definition createRepository :: "world \<Rightarrow> string \<Rightarrow> string \<Rightarrow> string \<Rightarrow> storage \<Rightarrow> string + (Repository \<times> storage)" where
  "createRepository w rid url nm s =
     (case d1_insert_repository_fault w of
        Some e \<Rightarrow> Inl e
      | None \<Rightarrow>
          if list_ex (\<lambda>row. r_id row = rid) (repositories s)
          then Inl ''UNIQUE constraint failed: repositories.id''
          else (let row = \<lparr> r_id = rid, r_github_url = url, r_name = nm, r_created_at = now w \<rparr>
                in Inr (row, s\<lparr>repositories := repositories s @ [row]\<rparr>)))"

definition getRepository :: "storage \<Rightarrow> string \<Rightarrow> Repository option" where
  "getRepository s rid = find (\<lambda>row. r_id row = rid) (repositories s)"

definition getRepositoryByUrl :: "storage \<Rightarrow> string \<Rightarrow> Repository option" where
  "getRepositoryByUrl s url = find (\<lambda>row. r_github_url row = url) (repositories s)"

definition createCommit :: "world \<Rightarrow> nat \<Rightarrow> Commit \<Rightarrow> storage \<Rightarrow> string + (Commit \<times> storage)" where
  "createCommit w i c s =
     (case d1_insert_commit_fault w i of
        Some e \<Rightarrow> Inl e
      | None \<Rightarrow>
          if list_ex (\<lambda>row. c_id row = c_id c) (commits s)
          then Inl ''UNIQUE constraint failed: commits.id''
          else (let row = c\<lparr>c_created_at := now w\<rparr>
                in Inr (row, s\<lparr>commits := commits s @ [row]\<rparr>)))"

definition setAnalysisStatus :: "world \<Rightarrow> string \<Rightarrow> AnalysisStatus \<Rightarrow> storage \<Rightarrow> string + storage" where
  "setAnalysisStatus w rid st s =
     (case kv_put_fault w (st_status st) of
        Some e \<Rightarrow> Inl e
      | None \<Rightarrow> Inr (s\<lparr>kv := AList.update (''analysis:'' @ rid) st (kv s)\<rparr>))"

definition getAnalysisStatus :: "storage \<Rightarrow> string \<Rightarrow> AnalysisStatus option" where
  "getAnalysisStatus s rid = map_of (kv s) (''analysis:'' @ rid)"

definition storeCommitDiff :: "world \<Rightarrow> nat \<Rightarrow> string \<Rightarrow> string \<Rightarrow> CommitDiff \<Rightarrow> storage \<Rightarrow> string + storage" where
  "storeCommitDiff w i rid csha d s =
     (case r2_put_diff_fault w i of
        Some e \<Rightarrow> Inl e
      | None \<Rightarrow>
          Inr (s\<lparr>r2_diffs := AList.update (''repos/'' @ rid @ ''/diffs/'' @ csha @ ''.json'') d (r2_diffs s)\<rparr>))"

section \<open>GitHubService.ingestRepository (src/unnamed/part_001)\<close>

record RepoIngestionResult =
  repository :: Repository
  res_commits :: "Commit list"
  learningCommits :: nat
  totalCommits :: nat
  res_errors :: "string list"

record ingest_options =
  opt_branch :: "string option"
  opt_commitLimit :: "nat option"

text \<open>\<open>convertToDbCommit\<close> builds a row without \<open>created_at\<close>, which the insert fills in.\<close>

definition convertToDbCommit :: "GitHubCommit \<Rightarrow> string \<Rightarrow> Commit" where
  "convertToDbCommit gitHubCommit repoId =
     \<lparr> c_id = repoId @ '':'' @ sha gitHubCommit, c_repo_id = repoId, c_sha = sha gitHubCommit,
       c_message = commit_message gitHubCommit, c_author = commit_author_name gitHubCommit,
       c_date = commit_author_date gitHubCommit, c_created_at = [] \<rparr>"

definition toDiff :: "GitHubCommit \<Rightarrow> GitHubFile list \<Rightarrow> CommitDiff" where
  "toDiff githubCommit fs =
     \<lparr> commit_sha = sha githubCommit,
       diff_files = map (\<lambda>file. \<lparr> df_filename = filename file, df_status = status file,
                                  df_additions = additions file, df_deletions = deletions file,
                                  df_patch = patch file \<rparr>) fs \<rparr>"

text \<open>The text of a thrown \<open>Error\<close> inside a template string.\<close>

definition failedToStore :: "string \<Rightarrow> string \<Rightarrow> string" where
  "failedToStore csha e = ''Failed to store commit '' @ csha @ '': Error: '' @ e"

text \<open>
  One round of the loop over the batch, for the commit at position \<open>i\<close>: the body of
  the inner \<open>try\<close> and its \<open>catch\<close>.
\<close>

definition ingestCommit :: "world \<Rightarrow> string \<Rightarrow> nat \<Rightarrow> GitHubCommit \<Rightarrow> CommitAnalysis \<Rightarrow>
    RepoIngestionResult \<times> storage \<Rightarrow> RepoIngestionResult \<times> storage" where
  "ingestCommit w repoId i githubCommit analysis rs =
     (case rs of (result, s) \<Rightarrow>
        (case createCommit w i (convertToDbCommit githubCommit repoId) s of
           Inl e \<Rightarrow> (result\<lparr>res_errors := res_errors result @ [failedToStore (sha githubCommit) e]\<rparr>, s)
         | Inr (storedCommit, s1) \<Rightarrow>
             (let result1 = result\<lparr>res_commits := res_commits result @ [storedCommit]\<rparr> in
              case files githubCommit of
                None \<Rightarrow> (result1, s1)
              | Some fs \<Rightarrow>
                  if isLearningWorthy analysis
                  then (case storeCommitDiff w i repoId (sha githubCommit) (toDiff githubCommit fs) s1 of
                          Inl e \<Rightarrow>
                            (result1\<lparr>res_errors := res_errors result1 @ [failedToStore (sha githubCommit) e]\<rparr>, s1)
                        | Inr s2 \<Rightarrow> (result1\<lparr>learningCommits := Suc (learningCommits result1)\<rparr>, s2))
                  else (result1, s1))))"

fun ingestLoop :: "world \<Rightarrow> string \<Rightarrow> nat \<Rightarrow> (GitHubCommit \<times> CommitAnalysis) list \<Rightarrow>
    RepoIngestionResult \<times> storage \<Rightarrow> RepoIngestionResult \<times> storage" where
  "ingestLoop w repoId i [] rs = rs"
| "ingestLoop w repoId i ((githubCommit, analysis) # rest) rs =
     ingestLoop w repoId (Suc i) rest (ingestCommit w repoId i githubCommit analysis rs)"

definition statusRecord :: "world \<Rightarrow> string \<Rightarrow> analysis_state \<Rightarrow> string option \<Rightarrow> AnalysisStatus" where
  "statusRecord w repoId st msg =
     \<lparr> st_repo_id = repoId, st_status = st, st_error_message = msg,
       st_started_at = now w, st_updated_at = now w \<rparr>"

text \<open>
  The outer \<open>try\<close> block from the write of the repository row on. The third component
  of the results of \<open>ingestTry\<close> is \<open>result.repository\<close> as the \<open>catch\<close> finds it.
\<close>

definition ingestAfterRow :: "world \<Rightarrow> string \<Rightarrow> string \<Rightarrow> GitHubRepository \<Rightarrow> ingest_options option \<Rightarrow>
    Repository \<Rightarrow> storage \<Rightarrow> (string + RepoIngestionResult) \<times> storage" where
  "ingestAfterRow w own rp repoInfo options row s1 =
     (let repoId = own @ ''/'' @ rp in
      case setAnalysisStatus w repoId (statusRecord w repoId St_analyzing None) s1 of
        Inl e \<Rightarrow> (Inl e, s1)
      | Inr s2 \<Rightarrow>
          (case getLearningCommits w own rp
                  (Some (str_or (case options of None \<Rightarrow> None | Some opts \<Rightarrow> opt_branch opts)
                                (default_branch repoInfo)))
                  (Some (num_or (case options of None \<Rightarrow> None | Some opts \<Rightarrow> opt_commitLimit opts) 50)) of
             Inl e \<Rightarrow> (Inl e, s2)
           | Inr githubCommits \<Rightarrow>
               (let result0 = \<lparr> repository = row, res_commits = [], learningCommits = 0,
                                totalCommits = length githubCommits, res_errors = [] \<rparr>;
                    commitAnalyses = analyzeCommits githubCommits;
                    looped = ingestLoop w repoId 0 (zip githubCommits commitAnalyses) (result0, s2)
                in case setAnalysisStatus w repoId (statusRecord w repoId St_completed None) (snd looped) of
                     Inl e \<Rightarrow> (Inl e, snd looped)
                   | Inr s4 \<Rightarrow> (Inr (fst looped), s4))))"

definition ingestTry :: "world \<Rightarrow> string \<Rightarrow> ingest_options option \<Rightarrow> storage \<Rightarrow>
    (string + RepoIngestionResult) \<times> storage \<times> Repository option" where
  "ingestTry w url options s =
     (let parsed = parseRepositoryUrl (JsString url) in
      if \<not> isValid parsed then (Inl (str_or (error parsed) ''Invalid repository URL''), s, None)
      else (case getRepositoryByUrl s url of
              Some existing \<Rightarrow> (Inl ''Repository already exists in database'', s, None)
            | None \<Rightarrow>
                (case gh_repository w (owner parsed) (repo parsed) of
                   Inl e \<Rightarrow> (Inl e, s, None)
                 | Inr repoInfo \<Rightarrow>
                     (case createRepository w (owner parsed @ ''/'' @ repo parsed) url (full_name repoInfo) s of
                        Inl e \<Rightarrow> (Inl e, s, None)
                      | Inr (row, s1) \<Rightarrow>
                          (case ingestAfterRow w (owner parsed) (repo parsed) repoInfo options row s1 of
                             (out, s') \<Rightarrow> (out, s', Some row))))))"

text \<open>
  \<open>ingestRepository\<close>: the \<open>try\<close> and its \<open>catch\<close>, which writes the status \<open>error\<close>
  when the repository row exists and rethrows. An error thrown by that write replaces
  the one being handled.
\<close>

definition ingestRepository :: "world \<Rightarrow> string \<Rightarrow> ingest_options option \<Rightarrow> storage \<Rightarrow>
    (string + RepoIngestionResult) \<times> storage" where
  "ingestRepository w url options s =
     (case ingestTry w url options s of
        (Inr result, s', _) \<Rightarrow> (Inr result, s')
      | (Inl e, s', None) \<Rightarrow> (Inl e, s')
      | (Inl e, s', Some row) \<Rightarrow>
          (case setAnalysisStatus w (r_id row) (statusRecord w (r_id row) St_error (Some e)) s' of
             Inl e2 \<Rightarrow> (Inl e2, s')
           | Inr s'' \<Rightarrow> (Inl e, s'')))"

section \<open>TutorialService sessions (src/tutorial/index.ts)\<close>

record TutorialSession =
  ts_session :: LearnerSession
  ts_tutorial :: Tutorial
  ts_content :: TutorialContent
  currentStepContent :: "TutorialStep option"
  ts_parentSha :: "string option"

text \<open>The statements of \<open>DatabaseService\<close> on the session table.\<close>

definition db_createSession :: "string \<Rightarrow> string \<Rightarrow> string \<Rightarrow> int \<Rightarrow> string option \<Rightarrow> storage \<Rightarrow>
    string + (LearnerSession \<times> storage)" where
  "db_createSession clock sid tid step done s =
     (if list_ex (\<lambda>row. ls_id row = sid) (learner_sessions s)
      then Inl ''UNIQUE constraint failed: learner_sessions.id''
      else (let row = \<lparr> ls_id = sid, ls_tutorial_id = tid, current_step = step,
                         started_at = clock, completed_at = done \<rparr>
            in Inr (row, s\<lparr>learner_sessions := learner_sessions s @ [row]\<rparr>)))"

definition db_getSession :: "storage \<Rightarrow> string \<Rightarrow> LearnerSession option" where
  "db_getSession s sid = find (\<lambda>row. ls_id row = sid) (learner_sessions s)"

definition db_updateSessionProgress :: "storage \<Rightarrow> string \<Rightarrow> int \<Rightarrow> storage" where
  "db_updateSessionProgress s sid step =
     s\<lparr>learner_sessions :=
          map (\<lambda>row. if ls_id row = sid then row\<lparr>current_step := step\<rparr> else row) (learner_sessions s)\<rparr>"

definition db_completeSession :: "string \<Rightarrow> storage \<Rightarrow> string \<Rightarrow> storage" where
  "db_completeSession clock s sid =
     s\<lparr>learner_sessions :=
          map (\<lambda>row. if ls_id row = sid then row\<lparr>completed_at := Some clock\<rparr> else row) (learner_sessions s)\<rparr>"

definition db_getTutorial :: "storage \<Rightarrow> string \<Rightarrow> Tutorial option" where
  "db_getTutorial s tid = find (\<lambda>row. t_id row = tid) (tutorials s)"

definition r2_getTutorialContent :: "storage \<Rightarrow> string \<Rightarrow> TutorialContent option" where
  "r2_getTutorialContent s tid = map_of (r2_tutorial_content s) (''tutorials/'' @ tid @ ''/content.json'')"

definition getTutorialWithContent :: "storage \<Rightarrow> string \<Rightarrow> string + (Tutorial \<times> TutorialContent)" where
  "getTutorialWithContent s tutorialId =
     (case db_getTutorial s tutorialId of
        None \<Rightarrow> Inl ''Tutorial not found''
      | Some tutorial \<Rightarrow>
          (case r2_getTutorialContent s tutorialId of
             None \<Rightarrow> Inl ''Tutorial content not found''
           | Some content \<Rightarrow> Inr (tutorial, content)))"

text \<open>\<open>content.steps[k] || null\<close>: an index outside the array reads \<open>undefined\<close>.\<close>

definition stepAt :: "TutorialStep list \<Rightarrow> int \<Rightarrow> TutorialStep option" where
  "stepAt xs k = (if 0 \<le> k \<and> k < int (length xs) then Some (xs ! nat k) else None)"

definition sessionView :: "LearnerSession \<Rightarrow> Tutorial \<Rightarrow> TutorialContent \<Rightarrow> TutorialStep option \<Rightarrow> TutorialSession" where
  "sessionView session tutorial content cur =
     \<lparr> ts_session = session, ts_tutorial = tutorial, ts_content = content,
       currentStepContent = cur, ts_parentSha = parentSha content \<rparr>"

text \<open>\<open>startSession\<close>; \<open>sessionId\<close> is the identifier that \<open>generateId()\<close> hands out.\<close>

definition startSession :: "string \<Rightarrow> string \<Rightarrow> string \<Rightarrow> storage \<Rightarrow> (string + TutorialSession) \<times> storage" where
  "startSession clock sessionId tutorialId s =
     (case getTutorialWithContent s tutorialId of
        Inl e \<Rightarrow> (Inl e, s)
      | Inr (tutorial, content) \<Rightarrow>
          (case db_createSession clock sessionId tutorialId 0 None s of
             Inl e \<Rightarrow> (Inl e, s)
           | Inr (session, s1) \<Rightarrow>
               (Inr (sessionView session tutorial content (stepAt (steps content) 0)), s1)))"

definition getSession :: "storage \<Rightarrow> string \<Rightarrow> string + TutorialSession" where
  "getSession s sessionId =
     (case db_getSession s sessionId of
        None \<Rightarrow> Inl ''Session not found''
      | Some session \<Rightarrow>
          (case getTutorialWithContent s (ls_tutorial_id session) of
             Inl e \<Rightarrow> Inl e
           | Inr (tutorial, content) \<Rightarrow>
               Inr (sessionView session tutorial content (stepAt (steps content) (current_step session)))))"

definition nextStep :: "string \<Rightarrow> string \<Rightarrow> storage \<Rightarrow> (string + TutorialSession) \<times> storage" where
  "nextStep clock sessionId s =
     (case db_getSession s sessionId of
        None \<Rightarrow> (Inl ''Session not found'', s)
      | Some session \<Rightarrow>
          (case getTutorialWithContent s (ls_tutorial_id session) of
             Inl e \<Rightarrow> (Inl e, s)
           | Inr (tutorial, content) \<Rightarrow>
               if current_step session \<ge> int (length (steps content)) - 1
               then (let s1 = db_completeSession clock s sessionId in (getSession s1 sessionId, s1))
               else (let s1 = db_updateSessionProgress s sessionId (current_step session + 1)
                     in (getSession s1 sessionId, s1))))"

definition previousStep :: "string \<Rightarrow> storage \<Rightarrow> (string + TutorialSession) \<times> storage" where
  "previousStep sessionId s =
     (case db_getSession s sessionId of
        None \<Rightarrow> (Inl ''Session not found'', s)
      | Some session \<Rightarrow>
          if current_step session \<le> 0 then (getSession s sessionId, s)
          else (let s1 = db_updateSessionProgress s sessionId (current_step session - 1)
                in (getSession s1 sessionId, s1)))"

text \<open>\<open>completeSession\<close> resolves to nothing; only the store changes.\<close>

definition completeSession :: "string \<Rightarrow> string \<Rightarrow> storage \<Rightarrow> storage" where
  "completeSession clock sessionId s = db_completeSession clock s sessionId"

section \<open>AIService tutorial content (src/ai/service.ts)\<close>

text \<open>
  JavaScript values as \<open>JSON.parse\<close> builds them; an object is the list of its
  properties. Only zero or not matters of a number here. The parameters \<open>commit\<close>,
  \<open>files\<close> and \<open>repository\<close> of \<open>generateTutorialContent\<close> are declared \<open>any\<close>, and
  the codebase context it receives is built by \<open>parseCodebaseContext\<close> from fields of
  an answer of the AI that nothing validates: all four are such values, \<open>JNull\<close>
  standing for \<open>null\<close> and for \<open>undefined\<close>.
\<close>

datatype json =
    JNull
  | JBool bool
  | JNum int
  | JStr string
  | JArr "json list"
  | JObj "(string \<times> json) list"

definition truthy :: "json \<Rightarrow> bool" where
  "truthy v = (case v of JNull \<Rightarrow> False | JBool b \<Rightarrow> b | JNum n \<Rightarrow> n \<noteq> 0 | JStr t \<Rightarrow> t \<noteq> [] | _ \<Rightarrow> True)"

text \<open>
  Reading a property of a value other than \<open>null\<close>: \<open>None\<close> is \<open>undefined\<close>. No
  property name read here is defined on the prototype of a string, a number, a
  boolean or an array, so only an object can answer. Reading a property of \<open>null\<close>
  throws; the callers below test for \<open>JNull\<close> first.
\<close>

definition get_prop :: "json \<Rightarrow> string \<Rightarrow> json option" where
  "get_prop v k = (case v of JObj kvs \<Rightarrow> map_of kvs k | _ \<Rightarrow> None)"

definition js_or :: "json option \<Rightarrow> json \<Rightarrow> json" where
  "js_or x d = (case x of None \<Rightarrow> d | Some v \<Rightarrow> if truthy v then v else d)"

text \<open>
  Converting a value to text, in a template string or under \<open>+\<close>. An object converts
  through the \<open>toString\<close> it inherits; when it has a property \<open>toString\<close> of its own,
  which is no function in a parsed value, the conversion throws. An array converts its
  elements. Everything else converts.
\<close>

fun toText_ok :: "json \<Rightarrow> bool" where
  "toText_ok (JObj kvs) = (map_of kvs ''toString'' = None)"
| "toText_ok (JArr xs) = list_all toText_ok xs"
| "toText_ok v = True"

text \<open>\<open>${v.k}\<close> for a value \<open>v\<close> that is not \<open>null\<close>: \<open>undefined\<close> converts.\<close>

definition prop_text_ok :: "json \<Rightarrow> string \<Rightarrow> bool" where
  "prop_text_ok v k = (case get_prop v k of None \<Rightarrow> True | Some x \<Rightarrow> toText_ok x)"

record TutorialResult =
  title :: json
  description :: json
  tr_steps :: json

text \<open>
  \<open>buildTutorialPrompt\<close>. The text it returns goes to the AI only, whose answer is an
  input here, so what is kept is whether the text is built: \<open>Inr ()\<close> when it is,
  \<open>Inl\<close> when a \<open>TypeError\<close> is thrown on the way. \<open>fileLine_ok\<close> is the callback of
  \<open>files.map\<close> and of \<open>files.reduce\<close> on one file; \<open>contextSection_ok\<close> is the body
  of \<open>if (codebaseContext)\<close>: \<open>.map\<close> is a function on arrays only.
\<close>

definition fileLine_ok :: "json \<Rightarrow> bool" where
  "fileLine_ok f =
     (f \<noteq> JNull \<and> prop_text_ok f ''filename'' \<and> prop_text_ok f ''status'' \<and>
      prop_text_ok f ''additions'' \<and> prop_text_ok f ''deletions'')"

definition relatedFile_ok :: "json \<Rightarrow> bool" where
  "relatedFile_ok f = (f \<noteq> JNull \<and> prop_text_ok f ''path'' \<and> prop_text_ok f ''relevance'')"

definition contextSection_ok :: "json \<Rightarrow> bool" where
  "contextSection_ok codebaseContext =
     ((case get_prop codebaseContext ''repository'' of
         None \<Rightarrow> False
       | Some r \<Rightarrow> r \<noteq> JNull \<and> prop_text_ok r ''language'' \<and> prop_text_ok r ''framework'' \<and>
                    prop_text_ok r ''architecture'') \<and>
      (case get_prop codebaseContext ''fileStructure'' of
         None \<Rightarrow> False
       | Some fs \<Rightarrow> fs \<noteq> JNull \<and>
           (case get_prop fs ''mainFiles'' of Some (JArr xs) \<Rightarrow> list_all toText_ok xs | _ \<Rightarrow> False)) \<and>
      (case get_prop codebaseContext ''codePatterns'' of
         None \<Rightarrow> False
       | Some cp \<Rightarrow> cp \<noteq> JNull \<and>
           (case get_prop cp ''patterns'' of Some (JArr xs) \<Rightarrow> list_all toText_ok xs | _ \<Rightarrow> False)) \<and>
      (case get_prop codebaseContext ''relatedFiles'' of
         Some (JArr xs) \<Rightarrow> list_all relatedFile_ok xs
       | _ \<Rightarrow> False))"

definition buildTutorialPrompt :: "json \<Rightarrow> json \<Rightarrow> json \<Rightarrow> json \<Rightarrow> string + unit" where
  "buildTutorialPrompt commit files' repository' codebaseContext =
     (if (case files' of JArr fs \<Rightarrow> list_all fileLine_ok fs | _ \<Rightarrow> False) \<and>
         (if truthy codebaseContext then contextSection_ok codebaseContext else True) \<and>
         commit \<noteq> JNull \<and> prop_text_ok commit ''message'' \<and> prop_text_ok commit ''author'' \<and>
         repository' \<noteq> JNull \<and> prop_text_ok repository' ''name''
      then Inr ()
      else Inl ''TypeError'')"

definition fallbackStep :: "string \<Rightarrow> string \<Rightarrow> string \<Rightarrow> string list \<Rightarrow> json" where
  "fallbackStep t d ins hints =
     JObj [(''title'', JStr t), (''description'', JStr d), (''instructions'', JStr ins),
           (''hints'', JArr (map JStr hints))]"

text \<open>\<open>message.split('\n')[0]\<close>.\<close>

definition firstLine :: "string \<Rightarrow> string" where
  "firstLine m = takeWhile (\<lambda>c. c \<noteq> CHR 0x0A) m"

text \<open>The object that \<open>generateFallbackTutorial\<close> returns, for the title it has computed.\<close>

definition fallbackTutorial :: "string \<Rightarrow> TutorialResult" where
  "fallbackTutorial t =
     \<lparr> title = JStr t,
       description = JStr ''Step-by-step implementation guide based on the commit changes.'',
       tr_steps = JArr
         [fallbackStep ''Understand the Changes'' ''Review what was modified''
            ''Study the commit message and file changes to understand the goal.''
            [''Look at the commit message for context'', ''Check which files were modified''],
          fallbackStep ''Plan Your Implementation'' ''Break down the approach''
            ''Think about the implementation strategy and required changes.''
            [''Start with the main functionality'', ''Consider edge cases''],
          fallbackStep ''Implement the Changes'' ''Write the code''
            ''Implement the feature following the same patterns as the original commit.''
            [''Follow existing code patterns'', ''Add proper error handling'']] \<rparr>"

text \<open>
  \<open>generateFallbackTutorial\<close>: for a truthy \<open>commit\<close> the title is computed by
  \<open>commit.message.split('\n')[0]\<close>, which throws unless \<open>commit.message\<close> is a string.
\<close>

definition generateFallbackTutorial :: "json \<Rightarrow> json \<Rightarrow> string + TutorialResult" where
  "generateFallbackTutorial commit files' =
     (if truthy commit
      then (case get_prop commit ''message'' of
              Some (JStr m) \<Rightarrow> Inr (fallbackTutorial (''Learn: '' @ firstLine m))
            | _ \<Rightarrow> Inl ''TypeError'')
      else Inr (fallbackTutorial ''Learn from this commit''))"

text \<open>
  \<open>response.match(/\{[\s\S]*\}/)\<close>: from the first opening brace to the last closing
  brace behind it.
\<close>

definition match_braces :: "string \<Rightarrow> string option" where
  "match_braces response =
     (let r = dropWhile (\<lambda>c. c \<noteq> CHR ''{'') response in
      if CHR ''}'' \<in> set r then Some (rev (dropWhile (\<lambda>c. c \<noteq> CHR ''}'') (rev r))) else None)"

text \<open>
  \<open>parseTutorialResponse\<close>. \<open>JSON.parse\<close> belongs to the platform and is a parameter:
  \<open>json_parse t = None\<close> when it throws on \<open>t\<close>. Reading a property of \<open>null\<close> throws
  inside the \<open>try\<close> as well. The \<open>catch\<close> falls through to
  \<open>generateFallbackTutorial(null, [])\<close>.
\<close>

definition parseTutorialResponse :: "(string \<Rightarrow> json option) \<Rightarrow> string \<Rightarrow> string + TutorialResult" where
  "parseTutorialResponse json_parse response =
     (case match_braces response of
        None \<Rightarrow> generateFallbackTutorial JNull (JArr [])
      | Some jsonMatch \<Rightarrow>
          (case json_parse jsonMatch of
             None \<Rightarrow> generateFallbackTutorial JNull (JArr [])
           | Some JNull \<Rightarrow> generateFallbackTutorial JNull (JArr [])
           | Some parsed \<Rightarrow>
               Inr \<lparr> title = js_or (get_prop parsed ''title'') (JStr ''Learn from this commit''),
                     description = js_or (get_prop parsed ''description'') (JStr ''Step-by-step implementation guide''),
                     tr_steps = js_or (get_prop parsed ''steps'') (JArr []) \<rparr>))"

text \<open>
  What \<open>env.AI.run\<close> does: it throws, or it resolves to an object whose \<open>response\<close>
  field is a string or is missing.

  \<open>generateTutorialContent\<close> builds its prompt before the \<open>try\<close>: an error thrown
  there leaves the function. Inside the \<open>try\<close>, an error of the AI call or of
  \<open>parseTutorialResponse\<close> is caught, and the \<open>catch\<close> returns
  \<open>generateFallbackTutorial(commit, files)\<close>, whose own error leaves the function.
\<close>

datatype ai_outcome = AIThrows | AIResponds "string option"

definition generateTutorialContent :: "(string \<Rightarrow> json option) \<Rightarrow> ai_outcome \<Rightarrow> json \<Rightarrow> json \<Rightarrow> json \<Rightarrow> json \<Rightarrow>
    string + TutorialResult" where
  "generateTutorialContent json_parse ai commit files' repository' codebaseContext =
     (case buildTutorialPrompt commit files' repository' codebaseContext of
        Inl e \<Rightarrow> Inl e
      | Inr prompt \<Rightarrow>
          (case ai of
             AIThrows \<Rightarrow> generateFallbackTutorial commit files'
           | AIResponds r \<Rightarrow>
               (case parseTutorialResponse json_parse (case r of None \<Rightarrow> [] | Some t \<Rightarrow> t) of
                  Inl e \<Rightarrow> generateFallbackTutorial commit files'
                | Inr res \<Rightarrow> Inr res)))"

text \<open>Whether a value is an array with at least one element.\<close>

definition nonEmptyArray :: "json \<Rightarrow> bool" where
  "nonEmptyArray v = (case v of JArr (x # xs) \<Rightarrow> True | _ \<Rightarrow> False)"

section \<open>What happened to each commit of a batch\<close>

text \<open>
  The outcome of one round of the ingestion loop, read off \<open>ingestCommit\<close>: the row
  write threw, the row was written and the diff write threw (each with the message of
  the error thrown), or nothing threw. \<open>batchOutcomes\<close> lists the outcomes of the
  rounds of \<open>ingestLoop\<close>, each taken in the store that the rounds before it have left.
\<close>

datatype round_outcome = Stored | RowWriteFailed string | DiffWriteFailed string

definition roundOutcome :: "world \<Rightarrow> string \<Rightarrow> nat \<Rightarrow> GitHubCommit \<Rightarrow> CommitAnalysis \<Rightarrow> storage \<Rightarrow> round_outcome" where
  "roundOutcome w repoId i githubCommit analysis s =
     (case createCommit w i (convertToDbCommit githubCommit repoId) s of
        Inl e \<Rightarrow> RowWriteFailed e
      | Inr (storedCommit, s1) \<Rightarrow>
          (case files githubCommit of
             None \<Rightarrow> Stored
           | Some fs \<Rightarrow>
               if isLearningWorthy analysis
               then (case storeCommitDiff w i repoId (sha githubCommit) (toDiff githubCommit fs) s1 of
                       Inl e \<Rightarrow> DiffWriteFailed e
                     | Inr s2 \<Rightarrow> Stored)
               else Stored))"

fun batchOutcomes :: "world \<Rightarrow> string \<Rightarrow> nat \<Rightarrow> (GitHubCommit \<times> CommitAnalysis) list \<Rightarrow>
    RepoIngestionResult \<times> storage \<Rightarrow> round_outcome list" where
  "batchOutcomes w repoId i [] rs = []"
| "batchOutcomes w repoId i ((githubCommit, analysis) # rest) rs =
     roundOutcome w repoId i githubCommit analysis (snd rs) #
     batchOutcomes w repoId (Suc i) rest (ingestCommit w repoId i githubCommit analysis rs)"

definition rowFailed :: "round_outcome \<Rightarrow> bool" where
  "rowFailed out = (case out of RowWriteFailed e \<Rightarrow> True | _ \<Rightarrow> False)"

definition diffFailed :: "round_outcome \<Rightarrow> bool" where
  "diffFailed out = (case out of DiffWriteFailed e \<Rightarrow> True | _ \<Rightarrow> False)"

text \<open>The row that a successful insert of a commit returns and stores.\<close>

definition storedRow :: "world \<Rightarrow> string \<Rightarrow> GitHubCommit \<Rightarrow> Commit" where
  "storedRow w repoId githubCommit = (convertToDbCommit githubCommit repoId)\<lparr>c_created_at := now w\<rparr>"

text \<open>The entries of \<open>errors\<close> that the round of a commit leaves.\<close>

definition errorEntries :: "GitHubCommit \<Rightarrow> round_outcome \<Rightarrow> string list" where
  "errorEntries githubCommit out =
     (case out of
        Stored \<Rightarrow> []
      | RowWriteFailed e \<Rightarrow> [failedToStore (sha githubCommit) e]
      | DiffWriteFailed e \<Rightarrow> [failedToStore (sha githubCommit) e])"

section \<open>Example inputs\<close>

definition exampleFile :: "string \<Rightarrow> int \<Rightarrow> int \<Rightarrow> GitHubFile" where
  "exampleFile n a d =
     \<lparr> filename = n, status = modified, additions = a, deletions = d, changes = a + d,
       patch = None, blob_url = [] \<rparr>"

definition exampleCommit :: "string \<Rightarrow> GitHubFile list option \<Rightarrow> GitHubCommit" where
  "exampleCommit m fs =
     \<lparr> sha = ''abc'', commit_message = m, commit_author_name = ''a'', commit_author_date = ''d'',
       files = fs, parents = None \<rparr>"

text \<open>A batch of two commits: a feature with its file list, and a fix listed without files.\<close>

definition exampleBatch :: "GitHubCommit list" where
  "exampleBatch =
     [(exampleCommit ''Add dark mode toggle'' (Some [exampleFile ''src/theme.ts'' 30 10]))\<lparr>sha := ''aaa''\<rparr>,
      (exampleCommit ''Fix off-by-one in pagination'' None)\<lparr>sha := ''bbb''\<rparr>]"

text \<open>
  A world whose GitHub knows every repository and answers every commit listing with
  \<open>answer\<close>, and whose stores fail as the three fault functions say.
\<close>

definition exampleWorld :: "(string + GitHubCommit list) \<Rightarrow> (nat \<Rightarrow> string option) \<Rightarrow> (nat \<Rightarrow> string option) \<Rightarrow>
    (analysis_state \<Rightarrow> string option) \<Rightarrow> world" where
  "exampleWorld answer rowFault diffFault kvFault =
     \<lparr> now = ''2024-01-01T00:00:00Z'',
       gh_repository = (\<lambda>own rp. Inr \<lparr> gr_name = rp, full_name = own @ ''/'' @ rp, default_branch = ''main'' \<rparr>),
       gh_commits = (\<lambda>own rp branch per_page. answer),
       d1_insert_repository_fault = None,
       d1_insert_commit_fault = rowFault,
       r2_put_diff_fault = diffFault,
       kv_put_fault = kvFault \<rparr>"

definition noFault :: "'a \<Rightarrow> string option" where
  "noFault x = None"

definition faultAt :: "'a \<Rightarrow> string \<Rightarrow> 'a \<Rightarrow> string option" where
  "faultAt a e x = (if x = a then Some e else None)"

definition emptyStorage :: storage where
  "emptyStorage = \<lparr> repositories = [], commits = [], tutorials = [], learner_sessions = [],
      kv = [], r2_diffs = [], r2_tutorial_content = [] \<rparr>"

text \<open>
  Arguments of \<open>generateTutorialContent\<close> as \<open>generateTutorial\<close> passes them: a
  commit row, the files of the commit, a repository row and a codebase context.
\<close>

definition exampleCommitRow :: json where
  "exampleCommitRow =
     JObj [(''id'', JStr ''octo/demo:aaa''), (''repo_id'', JStr ''octo/demo''), (''sha'', JStr ''aaa''),
           (''message'', JStr ''Add dark mode toggle''), (''author'', JStr ''a''), (''date'', JStr ''d'')]"

definition exampleChangedFiles :: json where
  "exampleChangedFiles =
     JArr [JObj [(''filename'', JStr ''src/theme.ts''), (''status'', JStr ''modified''),
                 (''additions'', JNum 30), (''deletions'', JNum 10)]]"

definition exampleRepositoryRow :: json where
  "exampleRepositoryRow =
     JObj [(''id'', JStr ''octo/demo''), (''github_url'', JStr ''https://github.com/octo/demo''),
           (''name'', JStr ''octo/demo'')]"

definition exampleContext :: json where
  "exampleContext =
     JObj [(''repository'', JObj [(''name'', JStr ''octo/demo''), (''language'', JStr ''TypeScript'')]),
           (''fileStructure'', JObj [(''mainFiles'', JArr [JStr ''src/index.ts''])]),
           (''codePatterns'', JObj [(''patterns'', JArr [JStr ''Service classes''])]),
           (''relatedFiles'', JArr [JObj [(''path'', JStr ''src/theme.ts''), (''relevance'', JStr ''changed'')]])]"

definition exampleStep :: "string \<Rightarrow> TutorialStep" where
  "exampleStep n = \<lparr> step_id = n, step_title = n, step_description = [], step_instructions = [] \<rparr>"

definition exampleTutorial :: Tutorial where
  "exampleTutorial = \<lparr> t_id = ''T'', t_commit_id = ''o/r:abc'', t_title = ''t'', t_description = ''d'', t_created_at = ''t0'' \<rparr>"

definition exampleContent :: TutorialContent where
  "exampleContent = \<lparr> tc_tutorial_id = ''T'', steps = [exampleStep ''1'', exampleStep ''2'', exampleStep ''3''],
      parentSha = Some ''p'' \<rparr>"

text \<open>A store holding one tutorial of three steps and one session on it.\<close>

definition sessionStore :: "int \<Rightarrow> string option \<Rightarrow> storage" where
  "sessionStore k done =
     emptyStorage\<lparr> tutorials := [exampleTutorial],
       r2_tutorial_content := [(''tutorials/T/content.json'', exampleContent)],
       learner_sessions := [\<lparr> ls_id = ''S'', ls_tutorial_id = ''T'', current_step = k,
                               started_at = ''t0'', completed_at = done \<rparr>] \<rparr>"

section \<open>Properties of the classifier\<close>

lemma startsWith_prefix: "startsWith s p = prefix p s"
  by (induction s p rule: startsWith.induct) auto

lemma str_includes_sublist: "str_includes s sub = sublist sub s"
  by (induction s) (simp_all add: startsWith_prefix sublist_Cons_right)

lemma linesChanged_initial [simp]: "linesChanged (initialAnalysis c) = getTotalLinesChanged (filesOrEmpty c)"
  by (simp add: initialAnalysis_def Let_def)

lemma initial_not_worthy [simp]: "isLearningWorthy (initialAnalysis c) = False" "a_category (initialAnalysis c) = Other"
  by (simp_all add: initialAnalysis_def Let_def)

lemma categorizeCommit_table:
  "(categorizeCommit m fs = Feature \<longleftrightarrow>
      str_includes m ''add'' \<or> str_includes m ''feat'' \<or> str_includes m ''implement'') \<and>
   (categorizeCommit m fs = Fix \<longleftrightarrow>
      \<not> (str_includes m ''add'' \<or> str_includes m ''feat'' \<or> str_includes m ''implement'') \<and>
      (str_includes m ''fix'' \<or> str_includes m ''bug'' \<or> str_includes m ''resolve'')) \<and>
   (categorizeCommit m fs = Refactor \<longleftrightarrow>
      \<not> (str_includes m ''add'' \<or> str_includes m ''feat'' \<or> str_includes m ''implement'') \<and>
      \<not> (str_includes m ''fix'' \<or> str_includes m ''bug'' \<or> str_includes m ''resolve'') \<and>
      (str_includes m ''refactor'' \<or> str_includes m ''improve'' \<or> str_includes m ''clean'')) \<and>
   (categorizeCommit m fs = Test \<longleftrightarrow>
      \<not> (str_includes m ''add'' \<or> str_includes m ''feat'' \<or> str_includes m ''implement'') \<and>
      \<not> (str_includes m ''fix'' \<or> str_includes m ''bug'' \<or> str_includes m ''resolve'') \<and>
      \<not> (str_includes m ''refactor'' \<or> str_includes m ''improve'' \<or> str_includes m ''clean'') \<and>
      (str_includes m ''test'' \<or> 10 * length (filter isTestFile fs) > 7 * length fs)) \<and>
   (categorizeCommit m fs = Docs \<longleftrightarrow>
      \<not> (str_includes m ''add'' \<or> str_includes m ''feat'' \<or> str_includes m ''implement'') \<and>
      \<not> (str_includes m ''fix'' \<or> str_includes m ''bug'' \<or> str_includes m ''resolve'') \<and>
      \<not> (str_includes m ''refactor'' \<or> str_includes m ''improve'' \<or> str_includes m ''clean'') \<and>
      \<not> (str_includes m ''test'' \<or> 10 * length (filter isTestFile fs) > 7 * length fs) \<and>
      (str_includes m ''doc'' \<or> str_includes m ''readme'' \<or> 10 * length (filter isDocFile fs) > 7 * length fs)) \<and>
   (categorizeCommit m fs = Other \<longleftrightarrow>
      \<not> (str_includes m ''add'' \<or> str_includes m ''feat'' \<or> str_includes m ''implement'') \<and>
      \<not> (str_includes m ''fix'' \<or> str_includes m ''bug'' \<or> str_includes m ''resolve'') \<and>
      \<not> (str_includes m ''refactor'' \<or> str_includes m ''improve'' \<or> str_includes m ''clean'') \<and>
      \<not> (str_includes m ''test'' \<or> 10 * length (filter isTestFile fs) > 7 * length fs) \<and>
      \<not> (str_includes m ''doc'' \<or> str_includes m ''readme'' \<or> 10 * length (filter isDocFile fs) > 7 * length fs))"
  unfolding categorizeCommit_def hasMainlyTestFiles_def hasMainlyDocFiles_def
  by (simp split: if_splits)

lemma analyzeCommit_past_gates:
  assumes "length (filesOrEmpty c) \<le> 15" "5 \<le> getTotalLinesChanged (filesOrEmpty c)"
    "getTotalLinesChanged (filesOrEmpty c) \<le> 500"
  shows "analyzeCommit c =
      applyVersionOverride (toLowerCase (commit_message c))
        (applyConfigOverride (filesOrEmpty c)
          (applyCategory (filesOrEmpty c)
            ((initialAnalysis c)\<lparr>a_category := categorizeCommit (toLowerCase (commit_message c)) (filesOrEmpty c)\<rparr>)))"
  using assms by (simp add: analyzeCommit_def Let_def)

lemma applyCategory_worthy:
  "isLearningWorthy (applyCategory fs (a\<lparr>isLearningWorthy := False\<rparr>)) \<longleftrightarrow>
     (a_category a = Feature \<or> a_category a = Test \<or>
      (a_category a = Fix \<and> linesChanged a \<ge> 10 \<and> length fs \<le> 5) \<or>
      (a_category a = Refactor \<and> length fs \<le> 8 \<and> linesChanged a \<le> 200))"
  by (cases "a_category a") (simp_all add: applyCategory_def)

lemma applyCategory_category [simp]: "a_category (applyCategory fs a) = a_category a"
  by (cases "a_category a") (simp_all add: applyCategory_def)

lemma overrides_category [simp]:
  "a_category (applyConfigOverride fs a) = a_category a"
  "a_category (applyVersionOverride m a) = a_category a"
  by (simp_all add: applyConfigOverride_def applyVersionOverride_def)

lemma overrides_worthy:
  "isLearningWorthy (applyVersionOverride m (applyConfigOverride fs a)) \<longleftrightarrow>
     isLearningWorthy a \<and> \<not> hasOnlyConfigFiles fs \<and> \<not> isVersionBump m"
  by (simp add: applyConfigOverride_def applyVersionOverride_def)

lemma split_dot_pop_suffix:
  assumes "CHR ''.'' \<notin> set ext"
  shows "split_dot_pop (stem @ CHR ''.'' # ext) = ext"
proof -
  have "split_dot_pop (stem @ CHR ''.'' # ext) =
          rev (takeWhile (\<lambda>c. c \<noteq> CHR ''.'') (rev ext @ CHR ''.'' # rev stem))"
    by (simp add: split_dot_pop_def)
  also have "\<dots> = rev (takeWhile (\<lambda>c. c \<noteq> CHR ''.'') (rev ext))"
    by (simp add: takeWhile_tail)
  also have "\<dots> = ext"
  proof -
    have "takeWhile (\<lambda>c. c \<noteq> CHR ''.'') (rev ext) = rev ext"
      by (rule takeWhile_eq_all_conv [THEN iffD2]) (use assms in auto)
    then show ?thesis by (simp only: rev_rev_ident)
  qed
  finally show ?thesis .
qed

text \<open>
  C4. The size gates come first and in this order: more than 15 files returns the
  starting analysis (not worthy, category \<open>other\<close>) with the bulk reason; otherwise
  fewer than 5 changed lines returns it with the too-small reason; otherwise more than
  500 returns it with the generated reason. None of the three consults the category:
  a commit with message "Fix typo", one file and two changed lines is not worthy, with
  the too-small reason and category \<open>other\<close>, although its message categorizes as a fix.
\<close>

theorem analyzeCommit_size_gates:
  "(length (filesOrEmpty c) > 15 \<longrightarrow>
      analyzeCommit c = (initialAnalysis c)\<lparr>reason := ''Too many files changed (bulk operation)''\<rparr>) \<and>
   (length (filesOrEmpty c) \<le> 15 \<and> getTotalLinesChanged (filesOrEmpty c) < 5 \<longrightarrow>
      analyzeCommit c = (initialAnalysis c)\<lparr>reason := ''Very small change''\<rparr>) \<and>
   (length (filesOrEmpty c) \<le> 15 \<and> getTotalLinesChanged (filesOrEmpty c) > 500 \<longrightarrow>
      analyzeCommit c = (initialAnalysis c)\<lparr>reason := ''Too many lines changed (likely auto-generated)''\<rparr>) \<and>
   \<not> isLearningWorthy (initialAnalysis c) \<and> a_category (initialAnalysis c) = Other \<and>
   (commit_message c = ''Fix typo'' \<and> files c = Some [f] \<and> additions f + deletions f = 2 \<longrightarrow>
      \<not> isLearningWorthy (analyzeCommit c) \<and> reason (analyzeCommit c) = ''Very small change'' \<and>
      a_category (analyzeCommit c) = Other \<and>
      categorizeCommit (toLowerCase (commit_message c)) (filesOrEmpty c) = Fix)"
proof -
  have cat_fix: "categorizeCommit (toLowerCase ''Fix typo'') fs = Fix" for fs
    by (simp add: categorizeCommit_def toLowerCase_def lower_char_def)
  show ?thesis
    by (auto simp: analyzeCommit_def Let_def cat_fix filesOrEmpty_def getTotalLinesChanged_def)
qed


theorem analyzeCommit_size_gates_witness:
  "analyzeCommit (exampleCommit ''Fix typo'' (Some [exampleFile ''README.md'' 1 1])) =
     \<lparr> a_sha = ''abc'', isLearningWorthy = False, a_category = Other, reason = ''Very small change'',
       fileTypes = [''md''], linesChanged = 2 \<rparr> \<and>
   categorizeCommit (toLowerCase ''Fix typo'') [exampleFile ''README.md'' 1 1] = Fix \<and>
   reason (analyzeCommit (exampleCommit ''Add everything'' (Some (replicate 16 (exampleFile ''a.ts'' 0 0))))) =
     ''Too many files changed (bulk operation)'' \<and>
   reason (analyzeCommit (exampleCommit ''Add big feature'' (Some [exampleFile ''a.ts'' 400 101]))) =
     ''Too many lines changed (likely auto-generated)''"
proof -
  let ?c1 = "exampleCommit ''Fix typo'' (Some [exampleFile ''README.md'' 1 1])"
  let ?c2 = "exampleCommit ''Add everything'' (Some (replicate 16 (exampleFile ''a.ts'' 0 0)))"
  let ?c3 = "exampleCommit ''Add big feature'' (Some [exampleFile ''a.ts'' 400 101])"
  have i1: "initialAnalysis ?c1 = \<lparr> a_sha = ''abc'', isLearningWorthy = False, a_category = Other, reason = [],
       fileTypes = [''md''], linesChanged = 2 \<rparr>"
    by (simp add: initialAnalysis_def exampleCommit_def exampleFile_def filesOrEmpty_def getFileTypes_def
        getTotalLinesChanged_def split_dot_pop_def toLowerCase_def lower_char_def)
  have h1: "length (filesOrEmpty ?c1) \<le> 15 \<and> getTotalLinesChanged (filesOrEmpty ?c1) < 5"
    by (simp add: exampleCommit_def exampleFile_def filesOrEmpty_def getTotalLinesChanged_def)
  have h1': "commit_message ?c1 = ''Fix typo'' \<and> files ?c1 = Some [exampleFile ''README.md'' 1 1] \<and>
      additions (exampleFile ''README.md'' 1 1) + deletions (exampleFile ''README.md'' 1 1) = 2"
    by (simp add: exampleCommit_def exampleFile_def)
  have h2: "length (filesOrEmpty ?c2) > 15"
    by (simp add: exampleCommit_def filesOrEmpty_def)
  have h3: "length (filesOrEmpty ?c3) \<le> 15 \<and> getTotalLinesChanged (filesOrEmpty ?c3) > 500"
    by (simp add: exampleCommit_def exampleFile_def filesOrEmpty_def getTotalLinesChanged_def)
  have f1: "filesOrEmpty ?c1 = [exampleFile ''README.md'' 1 1]" "commit_message ?c1 = ''Fix typo''"
    by (simp_all add: exampleCommit_def filesOrEmpty_def)
  from analyzeCommit_size_gates [of ?c1 "exampleFile ''README.md'' 1 1"] h1 h1' i1 f1
  have a: "analyzeCommit ?c1 = \<lparr> a_sha = ''abc'', isLearningWorthy = False, a_category = Other,
      reason = ''Very small change'', fileTypes = [''md''], linesChanged = 2 \<rparr>"
    and b: "categorizeCommit (toLowerCase ''Fix typo'') [exampleFile ''README.md'' 1 1] = Fix"
    by simp_all
  from analyzeCommit_size_gates [of ?c2] h2
  have c: "reason (analyzeCommit ?c2) = ''Too many files changed (bulk operation)''" by simp
  from analyzeCommit_size_gates [of ?c3] h3
  have d: "reason (analyzeCommit ?c3) = ''Too many lines changed (likely auto-generated)''" by simp
  from a b c d show ?thesis by simp
qed

text \<open>
  C10. A commit record whose \<open>files\<close> field is absent or the empty list is analysed as
  not learning-worthy, with no changed lines and the reason \<open>Very small change\<close>,
  whatever its message: the second gate returns before the category and before the two
  overrides, which would both apply to the empty list otherwise.
\<close>

theorem analyzeCommit_without_files:
  assumes "files c = None \<or> files c = Some []"
  shows "analyzeCommit c =
           \<lparr> a_sha = sha c, isLearningWorthy = False, a_category = Other, reason = ''Very small change'',
             fileTypes = [], linesChanged = 0 \<rparr> \<and>
         hasOnlyConfigFiles (filesOrEmpty c) \<and>
         reason (analyzeCommit c) \<noteq> ''Only configuration changes'' \<and>
         reason (analyzeCommit c) \<noteq> ''Version bump''"
proof -
  from assms have e: "filesOrEmpty c = []" by (auto simp: filesOrEmpty_def)
  have r: "analyzeCommit c =
           \<lparr> a_sha = sha c, isLearningWorthy = False, a_category = Other, reason = ''Very small change'',
             fileTypes = [], linesChanged = 0 \<rparr>"
    by (simp add: analyzeCommit_def initialAnalysis_def e Let_def getTotalLinesChanged_def getFileTypes_def)
  have "hasOnlyConfigFiles (filesOrEmpty c)" by (simp add: e hasOnlyConfigFiles_def)
  with r show ?thesis by simp
qed

theorem analyzeCommit_without_files_witness:
  "analyzeCommit (exampleCommit ''Add feature, bump version to 2.3.1'' None) =
     \<lparr> a_sha = ''abc'', isLearningWorthy = False, a_category = Other, reason = ''Very small change'',
       fileTypes = [], linesChanged = 0 \<rparr> \<and>
   isVersionBump (toLowerCase ''Add feature, bump version to 2.3.1'') \<and>
   categorizeCommit (toLowerCase ''Add feature, bump version to 2.3.1'') [] = Feature"
proof -
  have h: "files (exampleCommit ''Add feature, bump version to 2.3.1'' None) = None \<or>
           files (exampleCommit ''Add feature, bump version to 2.3.1'' None) = Some []"
    by (simp add: exampleCommit_def)
  have v: "isVersionBump (toLowerCase ''Add feature, bump version to 2.3.1'')"
    by code_simp
  have k: "categorizeCommit (toLowerCase ''Add feature, bump version to 2.3.1'') [] = Feature"
    by code_simp
  from analyzeCommit_without_files [OF h] v k show ?thesis
    by (simp add: exampleCommit_def)
qed

text \<open>
  C5. For a commit past the size gates the category is the first that applies of:
  feature (the lowercased message contains add, feat or implement), fix (fix, bug,
  resolve), refactor (refactor, improve, clean), test (the message contains test, or
  more than 70 percent of the files are test files), docs (doc, readme, or more than 70
  percent documentation files), other. The analysis as the \<open>switch\<close> leaves it, before
  the two overrides, is worthy exactly for a feature, a test, a fix with at least 10
  changed lines in at most 5 files, and a refactor of at most 8 files and 200 lines;
  the final answer is that one unless an override applies.
\<close>

theorem classifier_decision_table:
  assumes "length (filesOrEmpty c) \<le> 15" "5 \<le> getTotalLinesChanged (filesOrEmpty c)"
    "getTotalLinesChanged (filesOrEmpty c) \<le> 500"
    and "m = toLowerCase (commit_message c)" and "fs = filesOrEmpty c"
    and "staged = applyCategory fs ((initialAnalysis c)\<lparr>a_category := categorizeCommit m fs\<rparr>)"
  shows "a_category (analyzeCommit c) = categorizeCommit m fs \<and>
    (categorizeCommit m fs = Feature \<longleftrightarrow>
      str_includes m ''add'' \<or> str_includes m ''feat'' \<or> str_includes m ''implement'') \<and>
    (categorizeCommit m fs = Fix \<longleftrightarrow>
      \<not> (str_includes m ''add'' \<or> str_includes m ''feat'' \<or> str_includes m ''implement'') \<and>
      (str_includes m ''fix'' \<or> str_includes m ''bug'' \<or> str_includes m ''resolve'')) \<and>
    (categorizeCommit m fs = Refactor \<longleftrightarrow>
      \<not> (str_includes m ''add'' \<or> str_includes m ''feat'' \<or> str_includes m ''implement'') \<and>
      \<not> (str_includes m ''fix'' \<or> str_includes m ''bug'' \<or> str_includes m ''resolve'') \<and>
      (str_includes m ''refactor'' \<or> str_includes m ''improve'' \<or> str_includes m ''clean'')) \<and>
    (categorizeCommit m fs = Test \<longleftrightarrow>
      \<not> (str_includes m ''add'' \<or> str_includes m ''feat'' \<or> str_includes m ''implement'') \<and>
      \<not> (str_includes m ''fix'' \<or> str_includes m ''bug'' \<or> str_includes m ''resolve'') \<and>
      \<not> (str_includes m ''refactor'' \<or> str_includes m ''improve'' \<or> str_includes m ''clean'') \<and>
      (str_includes m ''test'' \<or> 10 * length (filter isTestFile fs) > 7 * length fs)) \<and>
    (categorizeCommit m fs = Docs \<longleftrightarrow>
      \<not> (str_includes m ''add'' \<or> str_includes m ''feat'' \<or> str_includes m ''implement'') \<and>
      \<not> (str_includes m ''fix'' \<or> str_includes m ''bug'' \<or> str_includes m ''resolve'') \<and>
      \<not> (str_includes m ''refactor'' \<or> str_includes m ''improve'' \<or> str_includes m ''clean'') \<and>
      \<not> (str_includes m ''test'' \<or> 10 * length (filter isTestFile fs) > 7 * length fs) \<and>
      (str_includes m ''doc'' \<or> str_includes m ''readme'' \<or> 10 * length (filter isDocFile fs) > 7 * length fs)) \<and>
    (categorizeCommit m fs = Other \<longleftrightarrow>
      \<not> (str_includes m ''add'' \<or> str_includes m ''feat'' \<or> str_includes m ''implement'') \<and>
      \<not> (str_includes m ''fix'' \<or> str_includes m ''bug'' \<or> str_includes m ''resolve'') \<and>
      \<not> (str_includes m ''refactor'' \<or> str_includes m ''improve'' \<or> str_includes m ''clean'') \<and>
      \<not> (str_includes m ''test'' \<or> 10 * length (filter isTestFile fs) > 7 * length fs) \<and>
      \<not> (str_includes m ''doc'' \<or> str_includes m ''readme'' \<or> 10 * length (filter isDocFile fs) > 7 * length fs)) \<and>
    analyzeCommit c = applyVersionOverride m (applyConfigOverride fs staged) \<and>
    (isLearningWorthy staged \<longleftrightarrow>
       categorizeCommit m fs = Feature \<or> categorizeCommit m fs = Test \<or>
       (categorizeCommit m fs = Fix \<and> getTotalLinesChanged fs \<ge> 10 \<and> length fs \<le> 5) \<or>
       (categorizeCommit m fs = Refactor \<and> length fs \<le> 8 \<and> getTotalLinesChanged fs \<le> 200)) \<and>
    (isLearningWorthy (analyzeCommit c) \<longleftrightarrow>
       isLearningWorthy staged \<and> \<not> hasOnlyConfigFiles fs \<and> \<not> isVersionBump m)"
proof -
  have eq: "analyzeCommit c = applyVersionOverride m (applyConfigOverride fs staged)"
    using analyzeCommit_past_gates [OF assms(1-3)] assms(4-6) by simp
  have cat: "a_category (analyzeCommit c) = categorizeCommit m fs"
    by (simp add: eq assms(6))
  have w: "isLearningWorthy staged \<longleftrightarrow>
       categorizeCommit m fs = Feature \<or> categorizeCommit m fs = Test \<or>
       (categorizeCommit m fs = Fix \<and> getTotalLinesChanged fs \<ge> 10 \<and> length fs \<le> 5) \<or>
       (categorizeCommit m fs = Refactor \<and> length fs \<le> 8 \<and> getTotalLinesChanged fs \<le> 200)"
    using applyCategory_worthy [of fs "(initialAnalysis c)\<lparr>a_category := categorizeCommit m fs\<rparr>"]
    by (simp add: assms(5,6) initialAnalysis_def Let_def)
  have fin: "isLearningWorthy (analyzeCommit c) \<longleftrightarrow>
       isLearningWorthy staged \<and> \<not> hasOnlyConfigFiles fs \<and> \<not> isVersionBump m"
    by (simp add: eq overrides_worthy)
  note T = categorizeCommit_table [of m fs]
  show ?thesis
    by (intro conjI;
        (rule cat eq w fin T [THEN conjunct1] T [THEN conjunct2, THEN conjunct1]
           T [THEN conjunct2, THEN conjunct2, THEN conjunct1]
           T [THEN conjunct2, THEN conjunct2, THEN conjunct2, THEN conjunct1]
           T [THEN conjunct2, THEN conjunct2, THEN conjunct2, THEN conjunct2, THEN conjunct1]
           T [THEN conjunct2, THEN conjunct2, THEN conjunct2, THEN conjunct2, THEN conjunct2]))
qed


theorem classifier_decision_table_witness:
  "a_category (analyzeCommit (exampleCommit ''Fix off-by-one in pagination''
       (Some [exampleFile ''src/page.ts'' 7 3, exampleFile ''src/list.ts'' 1 1]))) = Fix \<and>
   isLearningWorthy (analyzeCommit (exampleCommit ''Fix off-by-one in pagination''
       (Some [exampleFile ''src/page.ts'' 7 3, exampleFile ''src/list.ts'' 1 1])))"
proof -
  let ?fs = "[exampleFile ''src/page.ts'' 7 3, exampleFile ''src/list.ts'' 1 1]"
  let ?c = "exampleCommit ''Fix off-by-one in pagination'' (Some ?fs)"
  let ?m = "''fix off-by-one in pagination''"
  have fs: "filesOrEmpty ?c = ?fs" by (simp add: filesOrEmpty_def exampleCommit_def)
  have m: "toLowerCase (commit_message ?c) = ?m"
    by (simp add: exampleCommit_def toLowerCase_def lower_char_def)
  have lines: "getTotalLinesChanged ?fs = 12"
    by (simp add: getTotalLinesChanged_def exampleFile_def)
  have g1: "length (filesOrEmpty ?c) \<le> 15" by (simp add: fs)
  have g2: "5 \<le> getTotalLinesChanged (filesOrEmpty ?c)" by (simp add: fs lines)
  have g3: "getTotalLinesChanged (filesOrEmpty ?c) \<le> 500" by (simp add: fs lines)
  note T = classifier_decision_table [OF g1 g2 g3 refl refl refl]
  have k1: "\<not> (str_includes ?m ''add'' \<or> str_includes ?m ''feat'' \<or> str_includes ?m ''implement'')"
    by simp
  have k2: "str_includes ?m ''fix''" by simp
  have cfg: "\<not> hasOnlyConfigFiles ?fs" by code_simp
  have bump: "\<not> isVersionBump ?m" by code_simp
  have cat: "categorizeCommit (toLowerCase (commit_message ?c)) (filesOrEmpty ?c) = Fix"
    using T [THEN conjunct2, THEN conjunct2, THEN conjunct1] k1 k2 by (simp add: m fs)
  have c1: "a_category (analyzeCommit ?c) = Fix"
    using T [THEN conjunct1] cat by simp
  have w: "isLearningWorthy (applyCategory (filesOrEmpty ?c)
      ((initialAnalysis ?c)\<lparr>a_category := categorizeCommit (toLowerCase (commit_message ?c)) (filesOrEmpty ?c)\<rparr>))"
    using T [THEN conjunct2, THEN conjunct2, THEN conjunct2, THEN conjunct2, THEN conjunct2,
        THEN conjunct2, THEN conjunct2, THEN conjunct2, THEN conjunct1] cat
    by (simp add: fs lines)
  have c2: "isLearningWorthy (analyzeCommit ?c)"
    using T [THEN conjunct2, THEN conjunct2, THEN conjunct2, THEN conjunct2, THEN conjunct2,
        THEN conjunct2, THEN conjunct2, THEN conjunct2, THEN conjunct2] w cfg bump
    by (simp add: fs m)
  from c1 c2 show ?thesis by simp
qed

text \<open>
  C6. A commit all of whose files are configuration files (extension json, yml, yaml,
  toml, ini or config, or a lowercased name containing package.json, package-lock.json,
  yarn.lock, .gitignore or dockerfile) is never learning-worthy; past the size gates its
  category is still the one read from the message and its reason names the override
  (or the version bump, which is tested last). A commit of a \<open>.yml\<close> file and
  \<open>package-lock.json\<close> is such a commit, whatever its message.
\<close>

theorem config_only_override:
  "(hasOnlyConfigFiles (filesOrEmpty c) \<longrightarrow> \<not> isLearningWorthy (analyzeCommit c)) \<and>
   (length (filesOrEmpty c) \<le> 15 \<and> 5 \<le> getTotalLinesChanged (filesOrEmpty c) \<and>
    getTotalLinesChanged (filesOrEmpty c) \<le> 500 \<and> hasOnlyConfigFiles (filesOrEmpty c) \<longrightarrow>
      a_category (analyzeCommit c) = categorizeCommit (toLowerCase (commit_message c)) (filesOrEmpty c) \<and>
      reason (analyzeCommit c) =
        (if isVersionBump (toLowerCase (commit_message c)) then ''Version bump''
         else ''Only configuration changes'')) \<and>
   (files c = Some [f1, f2] \<and> filename f1 = stem @ ''.yml'' \<and> filename f2 = ''package-lock.json'' \<longrightarrow>
      hasOnlyConfigFiles (filesOrEmpty c) \<and> \<not> isLearningWorthy (analyzeCommit c))"
proof -
  have a: "\<not> isLearningWorthy (analyzeCommit c)" if "hasOnlyConfigFiles (filesOrEmpty c)"
    using that
    by (simp add: analyzeCommit_def Let_def applyConfigOverride_def applyVersionOverride_def)
  have b: "a_category (analyzeCommit c) = categorizeCommit (toLowerCase (commit_message c)) (filesOrEmpty c) \<and>
      reason (analyzeCommit c) =
        (if isVersionBump (toLowerCase (commit_message c)) then ''Version bump''
         else ''Only configuration changes'')"
    if "length (filesOrEmpty c) \<le> 15" "5 \<le> getTotalLinesChanged (filesOrEmpty c)"
      "getTotalLinesChanged (filesOrEmpty c) \<le> 500" "hasOnlyConfigFiles (filesOrEmpty c)"
    using that
    by (simp add: analyzeCommit_past_gates applyConfigOverride_def applyVersionOverride_def)
  have c: "hasOnlyConfigFiles (filesOrEmpty c)"
    if "files c = Some [f1, f2]" "filename f1 = stem @ ''.yml''" "filename f2 = ''package-lock.json''"
  proof -
    have "split_dot_pop (filename f1) = ''yml''"
      using split_dot_pop_suffix [of "''yml''" stem] that(2) by simp
    then have "isConfigFile f1"
      by (simp add: isConfigFile_def Let_def configExtensions_def toLowerCase_def lower_char_def)
    moreover have "isConfigFile f2"
      by (simp add: isConfigFile_def Let_def configExtensions_def that(3) split_dot_pop_def
          toLowerCase_def lower_char_def)
    ultimately show ?thesis by (simp add: hasOnlyConfigFiles_def filesOrEmpty_def that(1))
  qed
  from a b c show ?thesis by blast
qed

theorem config_only_override_witness:
  "analyzeCommit (exampleCommit ''Add feature''
       (Some [exampleFile ''.github/workflows/ci.yml'' 10 1, exampleFile ''package-lock.json'' 10 1])) =
     \<lparr> a_sha = ''abc'', isLearningWorthy = False, a_category = Feature,
       reason = ''Only configuration changes'', fileTypes = [''yml'', ''json''], linesChanged = 22 \<rparr>"
proof -
  let ?f1 = "exampleFile ''.github/workflows/ci.yml'' 10 1"
  let ?f2 = "exampleFile ''package-lock.json'' 10 1"
  let ?c = "exampleCommit ''Add feature'' (Some [?f1, ?f2])"
  have fs: "filesOrEmpty ?c = [?f1, ?f2]" "files ?c = Some [?f1, ?f2]"
    by (simp_all add: filesOrEmpty_def exampleCommit_def)
  have names: "filename ?f1 = ''.github/workflows/ci'' @ ''.yml''" "filename ?f2 = ''package-lock.json''"
    by (simp_all add: exampleFile_def)
  have lines: "getTotalLinesChanged [?f1, ?f2] = 22"
    by (simp add: getTotalLinesChanged_def exampleFile_def)
  have m: "toLowerCase (commit_message ?c) = ''add feature''"
    by (simp add: exampleCommit_def toLowerCase_def lower_char_def)
  have bump: "\<not> isVersionBump ''add feature''" by code_simp
  have cat: "categorizeCommit ''add feature'' [?f1, ?f2] = Feature"
    by (simp add: categorizeCommit_def)
  have ft: "getFileTypes [?f1, ?f2] = [''yml'', ''json'']" by code_simp
  note T = config_only_override [of ?c ?f1 ?f2 "''.github/workflows/ci''", unfolded fs m lines]
  from T names have cfg: "hasOnlyConfigFiles [?f1, ?f2]" and nw: "\<not> isLearningWorthy (analyzeCommit ?c)"
    by simp_all
  from T cfg bump cat have r: "a_category (analyzeCommit ?c) = Feature"
      "reason (analyzeCommit ?c) = ''Only configuration changes''"
    by simp_all
  have g: "length (filesOrEmpty ?c) \<le> 15" "5 \<le> getTotalLinesChanged (filesOrEmpty ?c)"
      "getTotalLinesChanged (filesOrEmpty ?c) \<le> 500"
    by (simp_all add: fs lines)
  have s: "sha ?c = ''abc''" by (simp add: exampleCommit_def)
  have rest: "a_sha (analyzeCommit ?c) = ''abc''" "fileTypes (analyzeCommit ?c) = [''yml'', ''json'']"
     "linesChanged (analyzeCommit ?c) = 22"
    by (simp_all add: analyzeCommit_past_gates [OF g] m fs cat lines ft s applyVersionOverride_def
        applyConfigOverride_def applyCategory_def initialAnalysis_def Let_def)
  from nw r rest show ?thesis by (cases "analyzeCommit ?c") simp
qed

section \<open>Properties of the URL parser\<close>

lemma strip_prefix_Some: "strip_prefix p s = Some r \<longleftrightarrow> s = p @ r"
  by (auto simp: strip_prefix_def startsWith_prefix prefix_def)

lemma dropWhile_head:
  assumes "dropWhile P xs = c # rest"
  shows "\<not> P c \<and> xs = takeWhile P xs @ c # rest"
proof -
  have "\<not> P (hd (dropWhile P xs))" using assms hd_dropWhile [of P xs] by simp
  moreover have "xs = takeWhile P xs @ dropWhile P xs" by simp
  ultimately show ?thesis using assms by simp
qed

lemma match_owner_repo_sound:
  assumes "match_owner_repo s = Some (own, nm)"
  shows "own \<noteq> [] \<and> CHR ''/'' \<notin> set own \<and> nm \<noteq> [] \<and> CHR ''/'' \<notin> set nm \<and> CHR ''.'' \<notin> set nm \<and>
         (s = own @ ''/'' @ nm \<or> s = own @ ''/'' @ nm @ ''.git'')"
proof -
  let ?P = "\<lambda>c. c \<noteq> CHR ''/''"
  let ?Q = "\<lambda>c. c \<noteq> CHR ''/'' \<and> c \<noteq> CHR ''.''"
  from assms have o: "own = takeWhile ?P s" "own \<noteq> []"
    by (auto simp: match_owner_repo_def Let_def split: if_splits list.splits)
  from assms obtain c rest where d: "dropWhile ?P s = c # rest"
    by (auto simp: match_owner_repo_def Let_def split: if_splits list.splits)
  with assms have n: "nm = takeWhile ?Q rest" "nm \<noteq> []"
    and a: "dropWhile ?Q rest = [] \<or> dropWhile ?Q rest = ''.git''"
    by (auto simp: match_owner_repo_def Let_def split: if_splits)
  from dropWhile_head [OF d] have c: "c = CHR ''/''" and s: "s = own @ c # rest"
    unfolding o by blast+
  have id: "takeWhile ?Q rest @ dropWhile ?Q rest = rest" by (rule takeWhile_dropWhile_id)
  have own_ok: "CHR ''/'' \<notin> set own"
    unfolding o by (auto dest: set_takeWhileD)
  have nm_ok: "CHR ''/'' \<notin> set nm \<and> CHR ''.'' \<notin> set nm"
    unfolding n by (auto dest: set_takeWhileD)
  from a have shape: "s = own @ ''/'' @ nm \<or> s = own @ ''/'' @ nm @ ''.git''"
  proof
    assume e: "dropWhile ?Q rest = []"
    from id [unfolded e] have "rest = nm" unfolding n by (simp only: append_Nil2)
    then show ?thesis using s c by simp
  next
    assume e: "dropWhile ?Q rest = ''.git''"
    from id [unfolded e] have "rest = nm @ ''.git''" unfolding n by (rule sym)
    then show ?thesis using s c by simp
  qed
  from o(2) n(2) own_ok nm_ok shape show ?thesis by blast
qed

lemma match_owner_repo_complete:
  assumes "own \<noteq> []" "CHR ''/'' \<notin> set own" "nm \<noteq> []" "CHR ''/'' \<notin> set nm" "CHR ''.'' \<notin> set nm"
    and "sfx = [] \<or> sfx = ''.git''"
  shows "match_owner_repo (own @ ''/'' @ nm @ sfx) = Some (own, nm)"
proof -
  let ?P = "\<lambda>c. c \<noteq> CHR ''/''"
  let ?Q = "\<lambda>c. c \<noteq> CHR ''/'' \<and> c \<noteq> CHR ''.''"
  have t1: "takeWhile ?P (own @ ''/'' @ nm @ sfx) = own"
    using assms(2) by (subst takeWhile_append2) auto
  have d1: "dropWhile ?P (own @ ''/'' @ nm @ sfx) = CHR ''/'' # nm @ sfx"
    using assms(2) by (subst dropWhile_append2) auto
  have t2: "takeWhile ?Q (nm @ sfx) = nm"
    using assms(4,5,6) by (subst takeWhile_append2) auto
  have d2: "dropWhile ?Q (nm @ sfx) = sfx"
    using assms(4,5,6) by (subst dropWhile_append2) auto
  show ?thesis
    unfolding match_owner_repo_def Let_def t1 d1 list.case t2 d2
    using assms(1,3,6) by auto
qed


lemma strip_prefix_append [simp]: "strip_prefix p (p @ r) = Some r"
  by (simp add: strip_prefix_Some)

lemma pattern_https_sound:
  "pattern_https url = Some g \<Longrightarrow>
     (\<exists>r. (url = ''https://github.com/'' @ r \<or> url = ''http://github.com/'' @ r) \<and> match_owner_repo r = Some g)"
  by (auto simp: pattern_https_def strip_prefix_Some split: option.splits)

lemma pattern_ssh_sound:
  "pattern_ssh url = Some g \<Longrightarrow> (\<exists>r. url = ''git@github.com:'' @ r \<and> match_owner_repo r = Some g)"
  by (auto simp: pattern_ssh_def strip_prefix_Some split: option.splits)

lemma pattern_bare_sound:
  "pattern_bare url = Some g \<Longrightarrow> (\<exists>r. url = ''github.com/'' @ r \<and> match_owner_repo r = Some g)"
  by (auto simp: pattern_bare_def strip_prefix_Some split: option.splits)

lemma match_first_patterns:
  "match_first patterns url =
     (case pattern_https url of
        Some (g1, g2) \<Rightarrow> \<lparr> owner = g1, repo = g2, isValid = True, error = None \<rparr>
      | None \<Rightarrow>
         (case pattern_ssh url of
            Some (g1, g2) \<Rightarrow> \<lparr> owner = g1, repo = g2, isValid = True, error = None \<rparr>
          | None \<Rightarrow>
             (case pattern_bare url of
                Some (g1, g2) \<Rightarrow> \<lparr> owner = g1, repo = g2, isValid = True, error = None \<rparr>
              | None \<Rightarrow> \<lparr> owner = [], repo = [], isValid = False, error = Some ''Invalid GitHub URL format'' \<rparr>)))"
  by (simp add: patterns_def split: option.splits)

lemma parse_valid_shape:
  assumes "isValid (parseRepositoryUrl arg)"
  shows "\<exists>pre own nm sfx. arg = JsString (pre @ own @ ''/'' @ nm @ sfx) \<and>
           (pre = ''https://github.com/'' \<or> pre = ''http://github.com/'' \<or>
            pre = ''git@github.com:'' \<or> pre = ''github.com/'') \<and>
           (sfx = [] \<or> sfx = ''.git'') \<and>
           own \<noteq> [] \<and> CHR ''/'' \<notin> set own \<and> nm \<noteq> [] \<and> CHR ''/'' \<notin> set nm \<and> CHR ''.'' \<notin> set nm \<and>
           parseRepositoryUrl arg = \<lparr> owner = own, repo = nm, isValid = True, error = None \<rparr>"
proof -
  from assms obtain url where arg: "arg = JsString url"
    by (cases arg) (simp_all add: parseRepositoryUrl_def)
  have p: "parseRepositoryUrl arg = match_first patterns url"
    by (simp add: arg parseRepositoryUrl_def)
  with assms have v: "isValid (match_first patterns url)" by simp
  have "\<exists>pre r g. (pre = ''https://github.com/'' \<or> pre = ''http://github.com/'' \<or>
            pre = ''git@github.com:'' \<or> pre = ''github.com/'') \<and> url = pre @ r \<and>
          match_owner_repo r = Some g \<and>
          match_first patterns url = \<lparr> owner = fst g, repo = snd g, isValid = True, error = None \<rparr>"
  proof (cases "pattern_https url")
    case (Some g)
    then have "match_first patterns url = \<lparr> owner = fst g, repo = snd g, isValid = True, error = None \<rparr>"
      by (simp add: match_first_patterns split: prod.splits)
    with pattern_https_sound [OF Some] show ?thesis by blast
  next
    case n1: None
    show ?thesis
    proof (cases "pattern_ssh url")
      case (Some g)
      then have "match_first patterns url = \<lparr> owner = fst g, repo = snd g, isValid = True, error = None \<rparr>"
        by (simp add: match_first_patterns n1 split: prod.splits)
      with pattern_ssh_sound [OF Some] show ?thesis by blast
    next
      case n2: None
      show ?thesis
      proof (cases "pattern_bare url")
        case (Some g)
        then have "match_first patterns url = \<lparr> owner = fst g, repo = snd g, isValid = True, error = None \<rparr>"
          by (simp add: match_first_patterns n1 n2 split: prod.splits)
        with pattern_bare_sound [OF Some] show ?thesis by blast
      next
        case None
        with n1 n2 v show ?thesis by (simp add: match_first_patterns)
      qed
    qed
  qed
  then obtain pre r own nm where
    pre: "pre = ''https://github.com/'' \<or> pre = ''http://github.com/'' \<or>
            pre = ''git@github.com:'' \<or> pre = ''github.com/''"
    and url: "url = pre @ r" and m: "match_owner_repo r = Some (own, nm)"
    and res: "match_first patterns url = \<lparr> owner = own, repo = nm, isValid = True, error = None \<rparr>"
    by fastforce
  from match_owner_repo_sound [OF m]
  have ok: "own \<noteq> []" "CHR ''/'' \<notin> set own" "nm \<noteq> []" "CHR ''/'' \<notin> set nm" "CHR ''.'' \<notin> set nm"
    and shape: "r = own @ ''/'' @ nm \<or> r = own @ ''/'' @ nm @ ''.git''"
    by blast+
  from shape obtain sfx where sfx: "sfx = [] \<or> sfx = ''.git''" and r: "r = own @ ''/'' @ nm @ sfx"
    by auto
  have "arg = JsString (pre @ own @ ''/'' @ nm @ sfx)" by (simp only: arg url r)
  with pre sfx ok res p show ?thesis by metis
qed

lemma parse_accepts:
  assumes "own \<noteq> []" "CHR ''/'' \<notin> set own" "nm \<noteq> []" "CHR ''/'' \<notin> set nm" "CHR ''.'' \<notin> set nm"
    and pre: "pre = ''https://github.com/'' \<or> pre = ''http://github.com/'' \<or>
            pre = ''git@github.com:'' \<or> pre = ''github.com/''"
    and sfx: "sfx = [] \<or> sfx = ''.git''"
  shows "parseRepositoryUrl (JsString (pre @ own @ ''/'' @ nm @ sfx)) =
           \<lparr> owner = own, repo = nm, isValid = True, error = None \<rparr>"
proof -
  let ?r = "own @ ''/'' @ nm @ sfx"
  have m: "match_owner_repo ?r = Some (own, nm)"
    by (rule match_owner_repo_complete [OF assms(1-5) sfx])
  have h1: "pattern_https (''https://github.com/'' @ ?r) = Some (own, nm)"
    unfolding pattern_https_def strip_prefix_append option.case by (rule m)
  have h2: "pattern_https (''http://github.com/'' @ ?r) = Some (own, nm)"
  proof -
    have "strip_prefix ''https://github.com/'' (''http://github.com/'' @ ?r) = None"
      by (simp add: strip_prefix_def)
    then show ?thesis unfolding pattern_https_def strip_prefix_append by (simp only: option.case m)
  qed
  have h3: "pattern_https (''git@github.com:'' @ ?r) = None"
    by (simp add: pattern_https_def strip_prefix_def)
  have h4: "pattern_ssh (''git@github.com:'' @ ?r) = Some (own, nm)"
    unfolding pattern_ssh_def strip_prefix_append option.case by (rule m)
  have h5: "pattern_https (''github.com/'' @ ?r) = None"
    by (simp add: pattern_https_def strip_prefix_def)
  have h6: "pattern_ssh (''github.com/'' @ ?r) = None"
    by (simp add: pattern_ssh_def strip_prefix_def)
  have h7: "pattern_bare (''github.com/'' @ ?r) = Some (own, nm)"
    unfolding pattern_bare_def strip_prefix_append option.case by (rule m)
  from pre show ?thesis
    unfolding parseRepositoryUrl_def js_arg.case match_first_patterns
    by (elim disjE) (simp_all only: h1 h2 h3 h4 h5 h6 h7 option.case prod.case)
qed

lemma parse_invalid:
  assumes "\<not> isValid (parseRepositoryUrl arg)"
  shows "owner (parseRepositoryUrl arg) = [] \<and> repo (parseRepositoryUrl arg) = [] \<and>
         (error (parseRepositoryUrl arg) = Some ''Invalid GitHub URL format'' \<or>
          error (parseRepositoryUrl arg) = Some ''Failed to parse URL'')"
  using assms
  by (cases arg) (auto simp: parseRepositoryUrl_def match_first_patterns split: option.splits)

text \<open>
  C9. \<open>parseRepositoryUrl\<close> reads addresses on \<open>github.com\<close>. For an owner that is
  non-empty without a slash and a name that is non-empty with neither slash nor dot, it
  returns owner and name for \<open>https://github.com/owner/name\<close>,
  \<open>http://github.com/owner/name\<close>, \<open>github.com/owner/name\<close> and
  \<open>git@github.com:owner/name\<close>, each with or without a final \<open>.git\<close>, which is not
  part of the name returned. It returns a pair only for an input made of one of these
  four prefixes, an owner, one slash and a non-empty rest without a slash, and the pair
  is that owner and a non-empty beginning of that rest: an input on another host, or
  without that owner/name structure, gives \<open>isValid = false\<close>. Every
  invalid result has an empty owner and name and an error message. The function is
  total: it never throws. What it returns for a name that contains a dot is not part
  of this statement.
\<close>

theorem parseRepositoryUrl_github_shapes:
  "(own \<noteq> [] \<and> CHR ''/'' \<notin> set own \<and> nm \<noteq> [] \<and> CHR ''/'' \<notin> set nm \<and> CHR ''.'' \<notin> set nm \<and>
    (pre = ''https://github.com/'' \<or> pre = ''http://github.com/'' \<or>
     pre = ''git@github.com:'' \<or> pre = ''github.com/'') \<and>
    (sfx = [] \<or> sfx = ''.git'') \<longrightarrow>
      parseRepositoryUrl (JsString (pre @ own @ ''/'' @ nm @ sfx)) =
        \<lparr> owner = own, repo = nm, isValid = True, error = None \<rparr>) \<and>
   (isValid (parseRepositoryUrl arg) \<longrightarrow>
      (\<exists>pre' own' rest'. arg = JsString (pre' @ own' @ ''/'' @ rest') \<and>
           (pre' = ''https://github.com/'' \<or> pre' = ''http://github.com/'' \<or>
            pre' = ''git@github.com:'' \<or> pre' = ''github.com/'') \<and>
           own' \<noteq> [] \<and> CHR ''/'' \<notin> set own' \<and> rest' \<noteq> [] \<and> CHR ''/'' \<notin> set rest' \<and>
           owner (parseRepositoryUrl arg) = own' \<and> repo (parseRepositoryUrl arg) \<noteq> [] \<and>
           prefix (repo (parseRepositoryUrl arg)) rest' \<and> error (parseRepositoryUrl arg) = None)) \<and>
   (\<not> isValid (parseRepositoryUrl arg) \<longrightarrow>
      owner (parseRepositoryUrl arg) = [] \<and> repo (parseRepositoryUrl arg) = [] \<and>
      (error (parseRepositoryUrl arg) = Some ''Invalid GitHub URL format'' \<or>
       error (parseRepositoryUrl arg) = Some ''Failed to parse URL''))"
proof -
  have a: "parseRepositoryUrl (JsString (pre @ own @ ''/'' @ nm @ sfx)) =
        \<lparr> owner = own, repo = nm, isValid = True, error = None \<rparr>"
    if "own \<noteq> []" "CHR ''/'' \<notin> set own" "nm \<noteq> []" "CHR ''/'' \<notin> set nm" "CHR ''.'' \<notin> set nm"
      "pre = ''https://github.com/'' \<or> pre = ''http://github.com/'' \<or>
       pre = ''git@github.com:'' \<or> pre = ''github.com/''"
      "sfx = [] \<or> sfx = ''.git''"
    using that by (rule parse_accepts)
  have b: "\<exists>pre' own' rest'. arg = JsString (pre' @ own' @ ''/'' @ rest') \<and>
           (pre' = ''https://github.com/'' \<or> pre' = ''http://github.com/'' \<or>
            pre' = ''git@github.com:'' \<or> pre' = ''github.com/'') \<and>
           own' \<noteq> [] \<and> CHR ''/'' \<notin> set own' \<and> rest' \<noteq> [] \<and> CHR ''/'' \<notin> set rest' \<and>
           owner (parseRepositoryUrl arg) = own' \<and> repo (parseRepositoryUrl arg) \<noteq> [] \<and>
           prefix (repo (parseRepositoryUrl arg)) rest' \<and> error (parseRepositoryUrl arg) = None"
    if "isValid (parseRepositoryUrl arg)"
  proof -
    from parse_valid_shape [OF that] obtain p1 o1 n1 x1 where
      s: "arg = JsString (p1 @ o1 @ ''/'' @ n1 @ x1)"
      and p: "p1 = ''https://github.com/'' \<or> p1 = ''http://github.com/'' \<or>
            p1 = ''git@github.com:'' \<or> p1 = ''github.com/''"
      and x: "x1 = [] \<or> x1 = ''.git''"
      and ok: "o1 \<noteq> []" "CHR ''/'' \<notin> set o1" "n1 \<noteq> []" "CHR ''/'' \<notin> set n1"
      and r: "parseRepositoryUrl arg = \<lparr> owner = o1, repo = n1, isValid = True, error = None \<rparr>"
      by blast
    from x ok(4) have "CHR ''/'' \<notin> set (n1 @ x1)" by auto
    moreover from ok(3) have "n1 @ x1 \<noteq> []" by simp
    moreover have "owner (parseRepositoryUrl arg) = o1" "error (parseRepositoryUrl arg) = None"
      "repo (parseRepositoryUrl arg) \<noteq> []" "prefix (repo (parseRepositoryUrl arg)) (n1 @ x1)"
      using ok(3) by (simp_all add: r)
    ultimately show ?thesis using s p ok(1,2) by blast
  qed
  note c = parse_invalid [of arg]
  from a b c show ?thesis by blast
qed

theorem parseRepositoryUrl_github_shapes_witness:
  "parseRepositoryUrl (JsString ''https://github.com/octo/demo.git'') =
     \<lparr> owner = ''octo'', repo = ''demo'', isValid = True, error = None \<rparr> \<and>
   parseRepositoryUrl (JsString ''git@github.com:octo/demo'') =
     \<lparr> owner = ''octo'', repo = ''demo'', isValid = True, error = None \<rparr> \<and>
   (\<exists>pre' rest'. ''github.com/octo/demo'' = pre' @ ''octo'' @ ''/'' @ rest' \<and> rest' \<noteq> []) \<and>
   parseRepositoryUrl (JsString ''ftp://github.com/octo/demo'') =
     \<lparr> owner = [], repo = [], isValid = False, error = Some ''Invalid GitHub URL format'' \<rparr> \<and>
   parseRepositoryUrl JsNotAString =
     \<lparr> owner = [], repo = [], isValid = False, error = Some ''Failed to parse URL'' \<rparr>"
proof -
  have h: "''octo'' \<noteq> [] \<and> CHR ''/'' \<notin> set ''octo'' \<and> ''demo'' \<noteq> [] \<and> CHR ''/'' \<notin> set ''demo'' \<and>
     CHR ''.'' \<notin> set ''demo''" by simp
  from parseRepositoryUrl_github_shapes [of "''octo''" "''demo''" "''https://github.com/''" "''.git''"] h
  have a: "parseRepositoryUrl (JsString ''https://github.com/octo/demo.git'') =
     \<lparr> owner = ''octo'', repo = ''demo'', isValid = True, error = None \<rparr>" by simp
  from parseRepositoryUrl_github_shapes [of "''octo''" "''demo''" "''git@github.com:''" "[]"] h
  have b: "parseRepositoryUrl (JsString ''git@github.com:octo/demo'') =
     \<lparr> owner = ''octo'', repo = ''demo'', isValid = True, error = None \<rparr>" by simp
  have v: "isValid (parseRepositoryUrl (JsString ''github.com/octo/demo''))" by code_simp
  have o: "owner (parseRepositoryUrl (JsString ''github.com/octo/demo'')) = ''octo''" by code_simp
  from parseRepositoryUrl_github_shapes [of _ _ _ _ "JsString ''github.com/octo/demo''",
      THEN conjunct2, THEN conjunct1, rule_format, OF v]
  obtain pre' own' rest' where
    "JsString ''github.com/octo/demo'' = JsString (pre' @ own' @ ''/'' @ rest')"
    "rest' \<noteq> []" "owner (parseRepositoryUrl (JsString ''github.com/octo/demo'')) = own'"
    by blast
  with o have s: "\<exists>pre' rest'. ''github.com/octo/demo'' = pre' @ ''octo'' @ ''/'' @ rest' \<and> rest' \<noteq> []"
    by (simp only: js_arg.inject) blast
  have n1: "\<not> isValid (parseRepositoryUrl (JsString ''ftp://github.com/octo/demo''))" by code_simp
  have e1: "error (parseRepositoryUrl (JsString ''ftp://github.com/octo/demo'')) \<noteq> Some ''Failed to parse URL''"
    by code_simp
  from parseRepositoryUrl_github_shapes [of _ _ _ _ "JsString ''ftp://github.com/octo/demo''"] n1 e1
  have c: "parseRepositoryUrl (JsString ''ftp://github.com/octo/demo'') =
     \<lparr> owner = [], repo = [], isValid = False, error = Some ''Invalid GitHub URL format'' \<rparr>"
    by (cases "parseRepositoryUrl (JsString ''ftp://github.com/octo/demo'')") auto
  have n2: "\<not> isValid (parseRepositoryUrl JsNotAString)" by code_simp
  have e2: "error (parseRepositoryUrl JsNotAString) \<noteq> Some ''Invalid GitHub URL format''"
    by code_simp
  from parseRepositoryUrl_github_shapes [of _ _ _ _ JsNotAString] n2 e2
  have d: "parseRepositoryUrl JsNotAString =
     \<lparr> owner = [], repo = [], isValid = False, error = Some ''Failed to parse URL'' \<rparr>"
    by (cases "parseRepositoryUrl JsNotAString") auto
  from a b s c d show ?thesis by (intro conjI)
qed

text \<open>
  C9 as stated fails: the three shapes of the claim on a host other than
  \<open>github.com\<close> are rejected.
\<close>

theorem other_host_rejected:
  "parseRepositoryUrl (JsString ''https://gitlab.com/octo/demo'') =
     \<lparr> owner = [], repo = [], isValid = False, error = Some ''Invalid GitHub URL format'' \<rparr> \<and>
   parseRepositoryUrl (JsString ''gitlab.com/octo/demo.git'') =
     \<lparr> owner = [], repo = [], isValid = False, error = Some ''Invalid GitHub URL format'' \<rparr> \<and>
   parseRepositoryUrl (JsString ''git@gitlab.com:octo/demo.git'') =
     \<lparr> owner = [], repo = [], isValid = False, error = Some ''Invalid GitHub URL format'' \<rparr>"
  by code_simp

section \<open>Properties of the tutorial content generation\<close>

lemma fallback_null: "generateFallbackTutorial JNull fs = Inr (fallbackTutorial ''Learn from this commit'')"
  by (simp add: generateFallbackTutorial_def truthy_def)

lemma fallback_message:
  "get_prop commit ''message'' = Some (JStr m) \<Longrightarrow>
     generateFallbackTutorial commit fs = Inr (fallbackTutorial (''Learn: '' @ firstLine m))"
  by (cases commit) (simp_all add: generateFallbackTutorial_def get_prop_def truthy_def)

lemma js_or_truthy: "truthy d \<Longrightarrow> truthy (js_or x d)"
  by (cases x) (simp_all add: js_or_def)

lemma parse_title_description:
  assumes "parseTutorialResponse jp resp = Inr res"
  shows "truthy (title res) \<and> truthy (description res)"
proof -
  have d: "truthy (JStr ''Learn from this commit'')" "truthy (JStr ''Step-by-step implementation guide'')"
    by (simp_all add: truthy_def)
  have f: "truthy (title (fallbackTutorial ''Learn from this commit'')) \<and>
           truthy (description (fallbackTutorial ''Learn from this commit''))"
    by (simp add: fallbackTutorial_def truthy_def)
  show ?thesis
  proof (cases "match_braces resp")
    case None
    with assms f show ?thesis by (auto simp: parseTutorialResponse_def fallback_null)
  next
    case (Some t)
    show ?thesis
    proof (cases "jp t")
      case None
      with Some assms f show ?thesis by (auto simp: parseTutorialResponse_def fallback_null)
    next
      case p: (Some parsed)
      show ?thesis
      proof (cases "parsed = JNull")
        case True
        with Some p assms f show ?thesis by (auto simp: parseTutorialResponse_def fallback_null)
      next
        case False
        with Some p assms have "res =
            \<lparr> title = js_or (get_prop parsed ''title'') (JStr ''Learn from this commit''),
              description = js_or (get_prop parsed ''description'') (JStr ''Step-by-step implementation guide''),
              tr_steps = js_or (get_prop parsed ''steps'') (JArr []) \<rparr>"
          by (cases parsed) (auto simp: parseTutorialResponse_def)
        then show ?thesis using d by (simp add: js_or_truthy)
      qed
    qed
  qed
qed

lemma fallback_title_description:
  assumes "generateFallbackTutorial commit fs = Inr res"
  shows "truthy (title res) \<and> truthy (description res)"
proof -
  have t: "truthy (title (fallbackTutorial (c # cs))) \<and> truthy (description (fallbackTutorial (c # cs)))" for c cs
    by (simp add: fallbackTutorial_def truthy_def)
  show ?thesis
  proof (cases "truthy commit")
    case False
    with assms have "res = fallbackTutorial ''Learn from this commit''"
      by (simp add: generateFallbackTutorial_def)
    then show ?thesis using t by simp
  next
    case True
    show ?thesis
    proof (cases "get_prop commit ''message''")
      case None
      with True assms show ?thesis by (simp add: generateFallbackTutorial_def)
    next
      case (Some v)
      with True assms obtain m where "res = fallbackTutorial (''Learn: '' @ firstLine m)"
        by (cases v) (auto simp: generateFallbackTutorial_def)
      then show ?thesis using t by simp
    qed
  qed
qed

text \<open>
  An error thrown while the prompt is built leaves \<open>generateTutorialContent\<close>, whatever
  the AI does: a codebase context whose \<open>mainFiles\<close> is a text is an example.
\<close>

lemma prompt_error_leaves:
  "buildTutorialPrompt commit fs rp ctx = Inl e \<Longrightarrow>
     generateTutorialContent jp ai commit fs rp ctx = Inl e"
  by (simp add: generateTutorialContent_def)

lemma prompt_error_example:
  "generateTutorialContent jp ai exampleCommitRow exampleChangedFiles exampleRepositoryRow
     (JObj [(''repository'', JObj [(''language'', JStr ''TypeScript'')]),
            (''fileStructure'', JObj [(''mainFiles'', JStr ''src/index.ts'')]),
            (''codePatterns'', JObj [(''patterns'', JArr [])]),
            (''relatedFiles'', JArr [])]) = Inl ''TypeError''"
proof -
  have "buildTutorialPrompt exampleCommitRow exampleChangedFiles exampleRepositoryRow
     (JObj [(''repository'', JObj [(''language'', JStr ''TypeScript'')]),
            (''fileStructure'', JObj [(''mainFiles'', JStr ''src/index.ts'')]),
            (''codePatterns'', JObj [(''patterns'', JArr [])]),
            (''relatedFiles'', JArr [])]) = Inl ''TypeError''"
    by code_simp
  then show ?thesis by (rule prompt_error_leaves)
qed

text \<open>
  C8. Whenever the prompt is built: when the AI call throws and the commit carries a
  text as its message, when the answer of the AI holds no text between braces, and when
  that text does not parse, \<open>generateTutorialContent\<close> returns the template tutorial,
  whose title and description are non-empty texts and whose step list has three steps.
  When the text parses to an object, the value returned has the object's \<open>title\<close>,
  \<open>description\<close> and \<open>steps\<close> where these are truthy, whatever their type, and the
  default title, the default description and the empty list where they are not. Every
  value returned has a truthy title and a truthy description.
\<close>

theorem tutorial_content_degrade:
  "(buildTutorialPrompt commit fs rp ctx = Inr p \<and> get_prop commit ''message'' = Some (JStr m) \<longrightarrow>
      generateTutorialContent jp AIThrows commit fs rp ctx =
        Inr (fallbackTutorial (''Learn: '' @ firstLine m))) \<and>
   (buildTutorialPrompt commit fs rp ctx = Inr p \<and>
    match_braces (case r of None \<Rightarrow> [] | Some t \<Rightarrow> t) = None \<longrightarrow>
      generateTutorialContent jp (AIResponds r) commit fs rp ctx =
        Inr (fallbackTutorial ''Learn from this commit'')) \<and>
   (buildTutorialPrompt commit fs rp ctx = Inr p \<and>
    match_braces (case r of None \<Rightarrow> [] | Some t \<Rightarrow> t) = Some t \<and> jp t = None \<longrightarrow>
      generateTutorialContent jp (AIResponds r) commit fs rp ctx =
        Inr (fallbackTutorial ''Learn from this commit'')) \<and>
   (title (fallbackTutorial t0) = JStr t0 \<and>
    description (fallbackTutorial t0) = JStr ''Step-by-step implementation guide based on the commit changes.'' \<and>
    (\<exists>s1 s2 s3. tr_steps (fallbackTutorial t0) = JArr [s1, s2, s3])) \<and>
   (buildTutorialPrompt commit fs rp ctx = Inr p \<and>
    match_braces (case r of None \<Rightarrow> [] | Some t \<Rightarrow> t) = Some t \<and> jp t = Some (JObj kvs) \<longrightarrow>
      generateTutorialContent jp (AIResponds r) commit fs rp ctx =
        Inr \<lparr> title = (case map_of kvs ''title'' of
                         None \<Rightarrow> JStr ''Learn from this commit''
                       | Some v \<Rightarrow> if truthy v then v else JStr ''Learn from this commit''),
              description = (case map_of kvs ''description'' of
                         None \<Rightarrow> JStr ''Step-by-step implementation guide''
                       | Some v \<Rightarrow> if truthy v then v else JStr ''Step-by-step implementation guide''),
              tr_steps = (case map_of kvs ''steps'' of
                         None \<Rightarrow> JArr []
                       | Some v \<Rightarrow> if truthy v then v else JArr []) \<rparr>) \<and>
   (generateTutorialContent jp ai commit fs rp ctx = Inr res \<longrightarrow>
      truthy (title res) \<and> truthy (description res))"
proof -
  let ?resp = "case r of None \<Rightarrow> [] | Some t \<Rightarrow> t"
  have a: "generateTutorialContent jp AIThrows commit fs rp ctx =
        Inr (fallbackTutorial (''Learn: '' @ firstLine m))"
    if "buildTutorialPrompt commit fs rp ctx = Inr p" "get_prop commit ''message'' = Some (JStr m)"
    using that by (simp add: generateTutorialContent_def fallback_message)
  have b: "generateTutorialContent jp (AIResponds r) commit fs rp ctx =
        Inr (fallbackTutorial ''Learn from this commit'')"
    if "buildTutorialPrompt commit fs rp ctx = Inr p" "match_braces ?resp = None"
    using that by (simp add: generateTutorialContent_def parseTutorialResponse_def fallback_null)
  have c: "generateTutorialContent jp (AIResponds r) commit fs rp ctx =
        Inr (fallbackTutorial ''Learn from this commit'')"
    if "buildTutorialPrompt commit fs rp ctx = Inr p" "match_braces ?resp = Some t" "jp t = None"
    using that by (simp add: generateTutorialContent_def parseTutorialResponse_def fallback_null)
  have d: "title (fallbackTutorial t0) = JStr t0 \<and>
    description (fallbackTutorial t0) = JStr ''Step-by-step implementation guide based on the commit changes.'' \<and>
    (\<exists>s1 s2 s3. tr_steps (fallbackTutorial t0) = JArr [s1, s2, s3])"
    by (simp add: fallbackTutorial_def)
  have e: "generateTutorialContent jp (AIResponds r) commit fs rp ctx =
        Inr \<lparr> title = (case map_of kvs ''title'' of
                         None \<Rightarrow> JStr ''Learn from this commit''
                       | Some v \<Rightarrow> if truthy v then v else JStr ''Learn from this commit''),
              description = (case map_of kvs ''description'' of
                         None \<Rightarrow> JStr ''Step-by-step implementation guide''
                       | Some v \<Rightarrow> if truthy v then v else JStr ''Step-by-step implementation guide''),
              tr_steps = (case map_of kvs ''steps'' of
                         None \<Rightarrow> JArr []
                       | Some v \<Rightarrow> if truthy v then v else JArr []) \<rparr>"
    if "buildTutorialPrompt commit fs rp ctx = Inr p" "match_braces ?resp = Some t"
      "jp t = Some (JObj kvs)"
    using that
    by (simp add: generateTutorialContent_def parseTutorialResponse_def js_or_def get_prop_def)
  have f: "truthy (title res) \<and> truthy (description res)"
    if g: "generateTutorialContent jp ai commit fs rp ctx = Inr res"
  proof (cases "buildTutorialPrompt commit fs rp ctx")
    case (Inl x)
    with g show ?thesis by (simp add: generateTutorialContent_def)
  next
    case (Inr u)
    show ?thesis
    proof (cases ai)
      case AIThrows
      with g Inr have "generateFallbackTutorial commit fs = Inr res"
        by (simp add: generateTutorialContent_def)
      then show ?thesis by (rule fallback_title_description)
    next
      case (AIResponds x)
      show ?thesis
      proof (cases "parseTutorialResponse jp (case x of None \<Rightarrow> [] | Some t \<Rightarrow> t)")
        case (Inl y)
        with g Inr AIResponds have "generateFallbackTutorial commit fs = Inr res"
          by (simp add: generateTutorialContent_def)
        then show ?thesis by (rule fallback_title_description)
      next
        case pr: (Inr y)
        with g Inr AIResponds have "y = res" by (simp add: generateTutorialContent_def)
        with pr show ?thesis using parse_title_description [of jp _ res] by simp
      qed
    qed
  qed
  show ?thesis
  proof (intro conjI impI)
    assume "buildTutorialPrompt commit fs rp ctx = Inr p \<and> get_prop commit ''message'' = Some (JStr m)"
    then show "generateTutorialContent jp AIThrows commit fs rp ctx =
        Inr (fallbackTutorial (''Learn: '' @ firstLine m))"
      by (intro a) simp_all
  next
    assume "buildTutorialPrompt commit fs rp ctx = Inr p \<and> match_braces ?resp = None"
    then show "generateTutorialContent jp (AIResponds r) commit fs rp ctx =
        Inr (fallbackTutorial ''Learn from this commit'')"
      by (intro b) simp_all
  next
    assume "buildTutorialPrompt commit fs rp ctx = Inr p \<and> match_braces ?resp = Some t \<and> jp t = None"
    then show "generateTutorialContent jp (AIResponds r) commit fs rp ctx =
        Inr (fallbackTutorial ''Learn from this commit'')"
      by (intro c) simp_all
  next
    show "title (fallbackTutorial t0) = JStr t0" using d by (rule conjunct1)
  next
    show "description (fallbackTutorial t0) =
        JStr ''Step-by-step implementation guide based on the commit changes.''"
      using d by (elim conjE)
  next
    show "\<exists>s1 s2 s3. tr_steps (fallbackTutorial t0) = JArr [s1, s2, s3]" using d by (elim conjE)
  next
    assume "buildTutorialPrompt commit fs rp ctx = Inr p \<and> match_braces ?resp = Some t \<and>
       jp t = Some (JObj kvs)"
    then show "generateTutorialContent jp (AIResponds r) commit fs rp ctx =
        Inr \<lparr> title = (case map_of kvs ''title'' of
                         None \<Rightarrow> JStr ''Learn from this commit''
                       | Some v \<Rightarrow> if truthy v then v else JStr ''Learn from this commit''),
              description = (case map_of kvs ''description'' of
                         None \<Rightarrow> JStr ''Step-by-step implementation guide''
                       | Some v \<Rightarrow> if truthy v then v else JStr ''Step-by-step implementation guide''),
              tr_steps = (case map_of kvs ''steps'' of
                         None \<Rightarrow> JArr []
                       | Some v \<Rightarrow> if truthy v then v else JArr []) \<rparr>"
      by (intro e) simp_all
  next
    assume g: "generateTutorialContent jp ai commit fs rp ctx = Inr res"
    from f [OF g] show "truthy (title res)" by (rule conjunct1)
  next
    assume g: "generateTutorialContent jp ai commit fs rp ctx = Inr res"
    from f [OF g] show "truthy (description res)" by (rule conjunct2)
  qed
qed

theorem tutorial_content_degrade_witness:
  "generateTutorialContent Map.empty AIThrows exampleCommitRow exampleChangedFiles exampleRepositoryRow
       exampleContext = Inr (fallbackTutorial ''Learn: Add dark mode toggle'') \<and>
   generateTutorialContent Map.empty (AIResponds (Some ''I cannot help with that'')) exampleCommitRow
       exampleChangedFiles exampleRepositoryRow exampleContext =
     Inr (fallbackTutorial ''Learn from this commit'') \<and>
   generateTutorialContent Map.empty (AIResponds (Some ''Sorry, {no} JSON today'')) exampleCommitRow
       exampleChangedFiles exampleRepositoryRow exampleContext =
     Inr (fallbackTutorial ''Learn from this commit'') \<and>
   generateTutorialContent
       (Map.empty(''{\"title\": \"T\"}'' \<mapsto> JObj [(''title'', JStr ''T'')]))
       (AIResponds (Some ''Here: {\"title\": \"T\"}'')) exampleCommitRow exampleChangedFiles
       exampleRepositoryRow exampleContext =
     Inr \<lparr> title = JStr ''T'', description = JStr ''Step-by-step implementation guide'',
           tr_steps = JArr [] \<rparr>"
proof -
  let ?r1 = "Some ''I cannot help with that''"
  let ?r2 = "Some ''Sorry, {no} JSON today''"
  let ?r3 = "Some ''Here: {\"title\": \"T\"}''"
  let ?jp = "Map.empty(''{\"title\": \"T\"}'' \<mapsto> JObj [(''title'', JStr ''T'')])"
  have p: "buildTutorialPrompt exampleCommitRow exampleChangedFiles exampleRepositoryRow exampleContext = Inr ()"
    by code_simp
  have g: "get_prop exampleCommitRow ''message'' = Some (JStr ''Add dark mode toggle'')"
    by code_simp
  have fl: "firstLine ''Add dark mode toggle'' = ''Add dark mode toggle''" by code_simp
  have m1: "match_braces (case ?r1 of None \<Rightarrow> [] | Some t \<Rightarrow> t) = None"
    by (simp add: match_braces_def)
  have m2: "match_braces (case ?r2 of None \<Rightarrow> [] | Some t \<Rightarrow> t) = Some ''{no}''"
    by (simp add: match_braces_def)
  have j2: "(Map.empty :: string \<Rightarrow> json option) ''{no}'' = None" by simp
  have m3: "match_braces (case ?r3 of None \<Rightarrow> [] | Some t \<Rightarrow> t) = Some ''{\"title\": \"T\"}''"
    by (simp add: match_braces_def)
  have j3: "?jp ''{\"title\": \"T\"}'' = Some (JObj [(''title'', JStr ''T'')])" by simp
  note T = tutorial_content_degrade [of exampleCommitRow exampleChangedFiles exampleRepositoryRow
      exampleContext "()"]
  from T [of "''Add dark mode toggle''" Map.empty, THEN conjunct1, rule_format, OF conjI [OF p g]]
  have a: "generateTutorialContent Map.empty AIThrows exampleCommitRow exampleChangedFiles exampleRepositoryRow
       exampleContext = Inr (fallbackTutorial ''Learn: Add dark mode toggle'')"
    by (simp add: fl)
  from T [of _ Map.empty ?r1, THEN conjunct2, THEN conjunct1, rule_format, OF conjI [OF p m1]]
  have b: "generateTutorialContent Map.empty (AIResponds ?r1) exampleCommitRow
       exampleChangedFiles exampleRepositoryRow exampleContext =
     Inr (fallbackTutorial ''Learn from this commit'')" .
  from T [of _ Map.empty ?r2 "''{no}''", THEN conjunct2, THEN conjunct2, THEN conjunct1, rule_format,
      OF conjI [OF p conjI [OF m2 j2]]]
  have c: "generateTutorialContent Map.empty (AIResponds ?r2) exampleCommitRow
       exampleChangedFiles exampleRepositoryRow exampleContext =
     Inr (fallbackTutorial ''Learn from this commit'')" .
  from T [of _ ?jp ?r3 "''{\"title\": \"T\"}''" _ "[(''title'', JStr ''T'')]",
      THEN conjunct2, THEN conjunct2, THEN conjunct2, THEN conjunct2, THEN conjunct1, rule_format,
      OF conjI [OF p conjI [OF m3 j3]]]
  have d: "generateTutorialContent ?jp (AIResponds ?r3) exampleCommitRow exampleChangedFiles
       exampleRepositoryRow exampleContext =
     Inr \<lparr> title = JStr ''T'', description = JStr ''Step-by-step implementation guide'',
           tr_steps = JArr [] \<rparr>"
    by (simp add: truthy_def)
  from a b c d show ?thesis by (intro conjI)
qed

text \<open>
  C8 as stated fails: the answer \<open>{}\<close> parses, to the empty object, and the tutorial
  returned for it has no steps.
\<close>

theorem tutorial_content_empty_steps:
  "generateTutorialContent (Map.empty(''{}'' \<mapsto> JObj [])) (AIResponds (Some ''{}''))
       exampleCommitRow exampleChangedFiles exampleRepositoryRow exampleContext =
     Inr \<lparr> title = JStr ''Learn from this commit'', description = JStr ''Step-by-step implementation guide'',
           tr_steps = JArr [] \<rparr> \<and>
   \<not> nonEmptyArray (JArr [])"
proof -
  have p: "buildTutorialPrompt exampleCommitRow exampleChangedFiles exampleRepositoryRow exampleContext = Inr ()"
    by code_simp
  show ?thesis
    by (simp add: generateTutorialContent_def p parseTutorialResponse_def match_braces_def js_or_def
        get_prop_def nonEmptyArray_def)
qed

section \<open>Properties of the learner sessions\<close>

lemma find_map_same:
  assumes "\<And>x. P (f x) = P x"
  shows "find P (map f xs) = map_option f (find P xs)"
  using assms by (induction xs) simp_all

lemma getSession_after_update:
  "db_getSession s sid = Some sess \<Longrightarrow>
     db_getSession (db_updateSessionProgress s sid k) sid = Some (sess\<lparr>current_step := k\<rparr>)"
proof -
  assume a: "db_getSession s sid = Some sess"
  have "find (\<lambda>row. ls_id row = sid)
          (map (\<lambda>row. if ls_id row = sid then row\<lparr>current_step := k\<rparr> else row) (learner_sessions s)) =
        map_option (\<lambda>row. if ls_id row = sid then row\<lparr>current_step := k\<rparr> else row)
          (find (\<lambda>row. ls_id row = sid) (learner_sessions s))"
    by (rule find_map_same) simp
  moreover from a have "ls_id sess = sid" by (auto simp: db_getSession_def find_Some_iff)
  ultimately show ?thesis using a by (simp add: db_getSession_def db_updateSessionProgress_def)
qed

lemma getSession_after_complete:
  "db_getSession s sid = Some sess \<Longrightarrow>
     db_getSession (db_completeSession clock s sid) sid = Some (sess\<lparr>completed_at := Some clock\<rparr>)"
proof -
  assume a: "db_getSession s sid = Some sess"
  have "find (\<lambda>row. ls_id row = sid)
          (map (\<lambda>row. if ls_id row = sid then row\<lparr>completed_at := Some clock\<rparr> else row) (learner_sessions s)) =
        map_option (\<lambda>row. if ls_id row = sid then row\<lparr>completed_at := Some clock\<rparr> else row)
          (find (\<lambda>row. ls_id row = sid) (learner_sessions s))"
    by (rule find_map_same) simp
  moreover from a have "ls_id sess = sid" by (auto simp: db_getSession_def find_Some_iff)
  ultimately show ?thesis using a by (simp add: db_getSession_def db_completeSession_def)
qed

lemma tutorial_tables_unchanged [simp]:
  "db_getTutorial (db_updateSessionProgress s sid k) tid = db_getTutorial s tid"
  "db_getTutorial (db_completeSession clock s sid) tid = db_getTutorial s tid"
  "r2_getTutorialContent (db_updateSessionProgress s sid k) tid = r2_getTutorialContent s tid"
  "r2_getTutorialContent (db_completeSession clock s sid) tid = r2_getTutorialContent s tid"
  by (simp_all add: db_getTutorial_def r2_getTutorialContent_def
      db_updateSessionProgress_def db_completeSession_def)

lemma tutorial_unchanged [simp]:
  "getTutorialWithContent (db_updateSessionProgress s sid k) tid = getTutorialWithContent s tid"
  "getTutorialWithContent (db_completeSession clock s sid) tid = getTutorialWithContent s tid"
  unfolding getTutorialWithContent_def tutorial_tables_unchanged by (rule refl)+

lemma find_append_cases:
  "find P (xs @ ys) = (case find P xs of None \<Rightarrow> find P ys | Some x \<Rightarrow> Some x)"
  by (induction xs) simp_all

lemma getSession_after_create:
  assumes "\<not> list_ex (\<lambda>row. ls_id row = sid) (learner_sessions s)"
  shows "db_getSession (s\<lparr>learner_sessions := learner_sessions s @ [row]\<rparr>) sid =
           (if ls_id row = sid then Some row else None)"
proof -
  from assms have "find (\<lambda>row. ls_id row = sid) (learner_sessions s) = None"
    by (simp add: find_None_iff list_ex_iff)
  then show ?thesis by (simp add: db_getSession_def find_append_cases)
qed

text \<open>
  C3. A session started on a tutorial is at step 0 and not completed. With K steps,
  \<open>nextStep\<close> at a step below K - 1 moves one step up and leaves the completion time
  as it is; at step K - 1 (or beyond) it keeps the step and sets the completion time to
  the current time. \<open>previousStep\<close> at step 0 (or below) changes nothing and returns the
  current state; above 0 it moves one step down. \<open>completeSession\<close> sets the completion
  time to the current time. None of the three looks at the completion time: on a
  completed session they act as on any other, and the session stays completed.
\<close>

theorem session_transitions:
  "(getTutorialWithContent s tid = Inr (tut, content) \<and>
    \<not> list_ex (\<lambda>row. ls_id row = new) (learner_sessions s) \<and>
    fresh = \<lparr> ls_id = new, ls_tutorial_id = tid, current_step = 0, started_at = clock, completed_at = None \<rparr> \<longrightarrow>
      startSession clock new tid s =
        (Inr (sessionView fresh tut content (stepAt (steps content) 0)),
         s\<lparr>learner_sessions := learner_sessions s @ [fresh]\<rparr>) \<and>
      db_getSession (snd (startSession clock new tid s)) new = Some fresh) \<and>
   (db_getSession s sid = Some sess \<and> getTutorialWithContent s (ls_tutorial_id sess) = Inr (tut, content) \<and>
    current_step sess < int (length (steps content)) - 1 \<longrightarrow>
      nextStep clock sid s =
        (Inr (sessionView (sess\<lparr>current_step := current_step sess + 1\<rparr>) tut content
                (stepAt (steps content) (current_step sess + 1))),
         db_updateSessionProgress s sid (current_step sess + 1)) \<and>
      db_getSession (snd (nextStep clock sid s)) sid = Some (sess\<lparr>current_step := current_step sess + 1\<rparr>)) \<and>
   (db_getSession s sid = Some sess \<and> getTutorialWithContent s (ls_tutorial_id sess) = Inr (tut, content) \<and>
    current_step sess \<ge> int (length (steps content)) - 1 \<longrightarrow>
      nextStep clock sid s =
        (Inr (sessionView (sess\<lparr>completed_at := Some clock\<rparr>) tut content
                (stepAt (steps content) (current_step sess))),
         db_completeSession clock s sid) \<and>
      db_getSession (snd (nextStep clock sid s)) sid = Some (sess\<lparr>completed_at := Some clock\<rparr>)) \<and>
   (db_getSession s sid = Some sess \<and> getTutorialWithContent s (ls_tutorial_id sess) = Inr (tut, content) \<and>
    current_step sess \<le> 0 \<longrightarrow>
      previousStep sid s =
        (Inr (sessionView sess tut content (stepAt (steps content) (current_step sess))), s)) \<and>
   (db_getSession s sid = Some sess \<and> getTutorialWithContent s (ls_tutorial_id sess) = Inr (tut, content) \<and>
    current_step sess > 0 \<longrightarrow>
      previousStep sid s =
        (Inr (sessionView (sess\<lparr>current_step := current_step sess - 1\<rparr>) tut content
                (stepAt (steps content) (current_step sess - 1))),
         db_updateSessionProgress s sid (current_step sess - 1)) \<and>
      db_getSession (snd (previousStep sid s)) sid = Some (sess\<lparr>current_step := current_step sess - 1\<rparr>)) \<and>
   (db_getSession s sid = Some sess \<longrightarrow>
      db_getSession (completeSession clock sid s) sid = Some (sess\<lparr>completed_at := Some clock\<rparr>))"
proof -
  have st: "startSession clock new tid s =
        (Inr (sessionView fresh tut content (stepAt (steps content) 0)),
         s\<lparr>learner_sessions := learner_sessions s @ [fresh]\<rparr>) \<and>
      db_getSession (snd (startSession clock new tid s)) new = Some fresh"
    if "getTutorialWithContent s tid = Inr (tut, content)"
      "\<not> list_ex (\<lambda>row. ls_id row = new) (learner_sessions s)"
      "fresh = \<lparr> ls_id = new, ls_tutorial_id = tid, current_step = 0, started_at = clock, completed_at = None \<rparr>"
    using that getSession_after_create [OF that(2), of fresh]
    by (simp add: startSession_def db_createSession_def Let_def)
  have n1: "nextStep clock sid s =
        (Inr (sessionView (sess\<lparr>current_step := current_step sess + 1\<rparr>) tut content
                (stepAt (steps content) (current_step sess + 1))),
         db_updateSessionProgress s sid (current_step sess + 1)) \<and>
      db_getSession (snd (nextStep clock sid s)) sid = Some (sess\<lparr>current_step := current_step sess + 1\<rparr>)"
    if "db_getSession s sid = Some sess" "getTutorialWithContent s (ls_tutorial_id sess) = Inr (tut, content)"
      "current_step sess < int (length (steps content)) - 1"
    using that getSession_after_update [OF that(1)]
    by (simp add: nextStep_def getSession_def Let_def)
  have n2: "nextStep clock sid s =
        (Inr (sessionView (sess\<lparr>completed_at := Some clock\<rparr>) tut content
                (stepAt (steps content) (current_step sess))),
         db_completeSession clock s sid) \<and>
      db_getSession (snd (nextStep clock sid s)) sid = Some (sess\<lparr>completed_at := Some clock\<rparr>)"
    if "db_getSession s sid = Some sess" "getTutorialWithContent s (ls_tutorial_id sess) = Inr (tut, content)"
      "current_step sess \<ge> int (length (steps content)) - 1"
    using that getSession_after_complete [OF that(1)]
    by (simp add: nextStep_def getSession_def Let_def)
  have p1: "previousStep sid s =
        (Inr (sessionView sess tut content (stepAt (steps content) (current_step sess))), s)"
    if "db_getSession s sid = Some sess" "getTutorialWithContent s (ls_tutorial_id sess) = Inr (tut, content)"
      "current_step sess \<le> 0"
    using that by (simp add: previousStep_def getSession_def)
  have p2: "previousStep sid s =
        (Inr (sessionView (sess\<lparr>current_step := current_step sess - 1\<rparr>) tut content
                (stepAt (steps content) (current_step sess - 1))),
         db_updateSessionProgress s sid (current_step sess - 1)) \<and>
      db_getSession (snd (previousStep sid s)) sid = Some (sess\<lparr>current_step := current_step sess - 1\<rparr>)"
    if "db_getSession s sid = Some sess" "getTutorialWithContent s (ls_tutorial_id sess) = Inr (tut, content)"
      "current_step sess > 0"
    using that getSession_after_update [OF that(1)]
    by (simp add: previousStep_def getSession_def Let_def)
  have cs: "db_getSession (completeSession clock sid s) sid = Some (sess\<lparr>completed_at := Some clock\<rparr>)"
    if "db_getSession s sid = Some sess"
    using getSession_after_complete [OF that] by (simp add: completeSession_def)
  show ?thesis
    by (intro conjI; (intro impI, (elim conjE)?, rule st n1 n2 p1 p2 cs; assumption))
qed

theorem session_transitions_witness:
  "db_getSession (snd (nextStep ''t2'' ''S'' (sessionStore 0 None))) ''S'' =
     Some \<lparr> ls_id = ''S'', ls_tutorial_id = ''T'', current_step = 1, started_at = ''t0'', completed_at = None \<rparr> \<and>
   db_getSession (snd (nextStep ''t3'' ''S'' (sessionStore 2 None))) ''S'' =
     Some \<lparr> ls_id = ''S'', ls_tutorial_id = ''T'', current_step = 2, started_at = ''t0'', completed_at = Some ''t3'' \<rparr> \<and>
   snd (previousStep ''S'' (sessionStore 0 None)) = sessionStore 0 None \<and>
   db_getSession (snd (previousStep ''S'' (sessionStore 2 None))) ''S'' =
     Some \<lparr> ls_id = ''S'', ls_tutorial_id = ''T'', current_step = 1, started_at = ''t0'', completed_at = None \<rparr> \<and>
   (\<exists>s'. snd (startSession ''t3'' ''S2'' ''T'' (sessionStore 2 None)) = s' \<and>
      db_getSession s' ''S2'' =
        Some \<lparr> ls_id = ''S2'', ls_tutorial_id = ''T'', current_step = 0, started_at = ''t3'', completed_at = None \<rparr>)"
proof -
  let ?row = "\<lambda>k. \<lparr> ls_id = ''S'', ls_tutorial_id = ''T'', current_step = k, started_at = ''t0'',
                     completed_at = (None :: string option) \<rparr>"
  have g: "db_getSession (sessionStore k None) ''S'' = Some (?row k)" for k
    by (simp add: sessionStore_def emptyStorage_def db_getSession_def)
  have t: "getTutorialWithContent (sessionStore k None) (ls_tutorial_id (?row k)) = Inr (exampleTutorial, exampleContent)" for k
    by (simp add: sessionStore_def emptyStorage_def getTutorialWithContent_def db_getTutorial_def
        r2_getTutorialContent_def exampleTutorial_def)
  have len: "int (length (steps exampleContent)) = 3" by (simp add: exampleContent_def)
  have fresh: "\<not> list_ex (\<lambda>row. ls_id row = ''S2'') (learner_sessions (sessionStore 2 None))"
    by (simp add: sessionStore_def emptyStorage_def)
  let ?fresh = "\<lparr> ls_id = ''S2'', ls_tutorial_id = ''T'', current_step = 0, started_at = ''t3'',
                   completed_at = (None :: string option) \<rparr>"
  have t': "getTutorialWithContent (sessionStore 2 None) ''T'' = Inr (exampleTutorial, exampleContent)"
    using t [of 2] by simp
  note T0 = session_transitions [of "sessionStore 0 None" "''T''" exampleTutorial exampleContent "''S2''" ?fresh
      "''t2''" "''S''" "?row 0", unfolded len]
  note T2 = session_transitions [of "sessionStore 2 None" "''T''" exampleTutorial exampleContent "''S2''" ?fresh
      "''t3''" "''S''" "?row 2", unfolded len]
  have lt: "current_step (?row 0) < 3 - 1" and le: "current_step (?row 0) \<le> 0"
    and ge: "current_step (?row 2) \<ge> 3 - 1" and gt: "current_step (?row 2) > 0"
    by simp_all
  have a: "db_getSession (snd (nextStep ''t2'' ''S'' (sessionStore 0 None))) ''S'' = Some (?row 1)"
    using T0 [THEN conjunct2, THEN conjunct1, rule_format, OF conjI [OF g [of 0] conjI [OF t [of 0] lt]],
        THEN conjunct2]
    by simp
  have b: "db_getSession (snd (nextStep ''t3'' ''S'' (sessionStore 2 None))) ''S'' =
      Some ((?row 2)\<lparr>completed_at := Some ''t3''\<rparr>)"
    using T2 [THEN conjunct2, THEN conjunct2, THEN conjunct1, rule_format,
        OF conjI [OF g [of 2] conjI [OF t [of 2] ge]], THEN conjunct2]
    by simp
  have c: "snd (previousStep ''S'' (sessionStore 0 None)) = sessionStore 0 None"
    using T0 [THEN conjunct2, THEN conjunct2, THEN conjunct2, THEN conjunct1, rule_format,
        OF conjI [OF g [of 0] conjI [OF t [of 0] le]]]
    by simp
  have d: "db_getSession (snd (previousStep ''S'' (sessionStore 2 None))) ''S'' = Some (?row 1)"
    using T2 [THEN conjunct2, THEN conjunct2, THEN conjunct2, THEN conjunct2, THEN conjunct1, rule_format,
        OF conjI [OF g [of 2] conjI [OF t [of 2] gt]], THEN conjunct2]
    by simp
  have e: "\<exists>s'. snd (startSession ''t3'' ''S2'' ''T'' (sessionStore 2 None)) = s' \<and>
      db_getSession s' ''S2'' =
        Some \<lparr> ls_id = ''S2'', ls_tutorial_id = ''T'', current_step = 0, started_at = ''t3'', completed_at = None \<rparr>"
    using T2 [THEN conjunct1, rule_format, OF conjI [OF t' conjI [OF fresh refl]], THEN conjunct2]
    by simp
  from a b c d e show ?thesis by simp
qed

text \<open>
  C3 as stated fails: on a session completed at step 0 of three, \<open>nextStep\<close> moves to
  step 1; on a session completed at the last step, \<open>nextStep\<close> and \<open>completeSession\<close>
  overwrite the completion time.
\<close>

theorem nextStep_after_completion_changes_state:
  "db_getSession (sessionStore 0 (Some ''t1'')) ''S'' =
     Some \<lparr> ls_id = ''S'', ls_tutorial_id = ''T'', current_step = 0, started_at = ''t0'', completed_at = Some ''t1'' \<rparr> \<and>
   db_getSession (snd (nextStep ''t2'' ''S'' (sessionStore 0 (Some ''t1'')))) ''S'' =
     Some \<lparr> ls_id = ''S'', ls_tutorial_id = ''T'', current_step = 1, started_at = ''t0'', completed_at = Some ''t1'' \<rparr> \<and>
   db_getSession (snd (nextStep ''t2'' ''S'' (sessionStore 2 (Some ''t1'')))) ''S'' =
     Some \<lparr> ls_id = ''S'', ls_tutorial_id = ''T'', current_step = 2, started_at = ''t0'', completed_at = Some ''t2'' \<rparr> \<and>
   db_getSession (completeSession ''t2'' ''S'' (sessionStore 2 (Some ''t1''))) ''S'' =
     Some \<lparr> ls_id = ''S'', ls_tutorial_id = ''T'', current_step = 2, started_at = ''t0'', completed_at = Some ''t2'' \<rparr>"
  by (simp add: sessionStore_def emptyStorage_def nextStep_def db_getSession_def getTutorialWithContent_def
      db_getTutorial_def r2_getTutorialContent_def exampleTutorial_def exampleContent_def
      db_updateSessionProgress_def db_completeSession_def completeSession_def getSession_def Let_def)

section \<open>Properties of the ingestion\<close>

lemma ingestCommit_frame:
  "totalCommits (fst (ingestCommit w rid i gc an rs)) = totalCommits (fst rs) \<and>
   repository (fst (ingestCommit w rid i gc an rs)) = repository (fst rs) \<and>
   repositories (snd (ingestCommit w rid i gc an rs)) = repositories (snd rs) \<and>
   kv (snd (ingestCommit w rid i gc an rs)) = kv (snd rs)"
  by (cases rs)
     (auto simp: ingestCommit_def createCommit_def storeCommitDiff_def Let_def
        split: sum.splits option.splits prod.splits if_splits)

lemma ingestLoop_frame:
  "totalCommits (fst (ingestLoop w rid i batch rs)) = totalCommits (fst rs) \<and>
   repository (fst (ingestLoop w rid i batch rs)) = repository (fst rs) \<and>
   repositories (snd (ingestLoop w rid i batch rs)) = repositories (snd rs) \<and>
   kv (snd (ingestLoop w rid i batch rs)) = kv (snd rs)"
proof (induction batch arbitrary: i rs)
  case Nil
  show ?case by simp
next
  case (Cons a batch)
  obtain gc an where a: "a = (gc, an)" by (cases a)
  show ?case
    unfolding a
    using Cons.IH [of "Suc i" "ingestCommit w rid i gc an rs"] ingestCommit_frame [of w rid i gc an rs]
    by simp
qed

lemma createRepository_row:
  assumes "createRepository w rid url nm s = Inr (row, s1)"
  shows "r_id row = rid \<and> r_github_url row = url \<and> s1 = s\<lparr>repositories := repositories s @ [row]\<rparr>"
  using assms by (auto simp: createRepository_def Let_def split: option.splits if_splits)

lemma setAnalysisStatus_cases:
  "setAnalysisStatus w rid st s =
     (case kv_put_fault w (st_status st) of
        Some e \<Rightarrow> Inl e
      | None \<Rightarrow> Inr (s\<lparr>kv := AList.update (''analysis:'' @ rid) st (kv s)\<rparr>))"
  by (simp add: setAnalysisStatus_def)

lemma status_after_write:
  "setAnalysisStatus w rid st s = Inr s' \<Longrightarrow>
     getAnalysisStatus s' rid = Some st \<and> repositories s' = repositories s \<and> commits s' = commits s"
  by (auto simp: setAnalysisStatus_def getAnalysisStatus_def update_conv' split: option.splits)

lemma statusRecord_status [simp]: "st_status (statusRecord w rid st msg) = st"
  by (simp add: statusRecord_def)

lemma ingest_after_row_written:
  assumes "isValid (parseRepositoryUrl (JsString url))"
    and "getRepositoryByUrl s url = None"
    and "gh_repository w (owner (parseRepositoryUrl (JsString url))) (repo (parseRepositoryUrl (JsString url))) = Inr info"
    and "createRepository w (owner (parseRepositoryUrl (JsString url)) @ ''/'' @ repo (parseRepositoryUrl (JsString url)))
           url (full_name info) s = Inr (row, s1)"
  shows "ingestRepository w url opts s =
     (case ingestAfterRow w (owner (parseRepositoryUrl (JsString url))) (repo (parseRepositoryUrl (JsString url)))
             info opts row s1 of
        (Inr res, s') \<Rightarrow> (Inr res, s')
      | (Inl e, s') \<Rightarrow>
          (case setAnalysisStatus w (r_id row) (statusRecord w (r_id row) St_error (Some e)) s' of
             Inl e2 \<Rightarrow> (Inl e2, s')
           | Inr s'' \<Rightarrow> (Inl e, s'')))"
  using assms
  by (simp add: ingestRepository_def ingestTry_def Let_def split: prod.splits sum.splits)

lemma ingest_no_row:
  "\<not> isValid (parseRepositoryUrl (JsString url)) \<Longrightarrow>
     ingestRepository w url opts s = (Inl (str_or (error (parseRepositoryUrl (JsString url))) ''Invalid repository URL''), s)"
  "isValid (parseRepositoryUrl (JsString url)) \<Longrightarrow> getRepositoryByUrl s url = Some existing \<Longrightarrow>
     ingestRepository w url opts s = (Inl ''Repository already exists in database'', s)"
  by (simp_all add: ingestRepository_def ingestTry_def Let_def)


lemma setAnalysisStatus_frame:
  "setAnalysisStatus w rid st s = Inr s' \<Longrightarrow> repositories s' = repositories s"
  by (simp add: status_after_write)

lemma ingestAfterRow_repositories:
  "repositories (snd (ingestAfterRow w own rp info opts row s1)) = repositories s1"
proof -
  have loop: "repositories (snd (ingestLoop w rid i batch rs)) = repositories (snd rs)" for rid i batch rs
    using ingestLoop_frame [of w rid i batch rs] by blast
  show ?thesis
    by (auto simp: ingestAfterRow_def Let_def loop split: sum.splits dest!: setAnalysisStatus_frame)
qed

lemma ingest_repositories:
  "repositories (snd (ingestRepository w url opts s)) = repositories s \<and> isl (fst (ingestRepository w url opts s)) \<or>
   (\<exists>row. r_github_url row = url \<and> isValid (parseRepositoryUrl (JsString url)) \<and>
          repositories (snd (ingestRepository w url opts s)) = repositories s @ [row])"
proof (cases "isValid (parseRepositoryUrl (JsString url))")
  case False
  then show ?thesis by (simp add: ingest_no_row)
next
  case v: True
  let ?P = "parseRepositoryUrl (JsString url)"
  show ?thesis
  proof (cases "getRepositoryByUrl s url")
    case (Some existing)
    with v show ?thesis by (simp add: ingest_no_row)
  next
    case n: None
    show ?thesis
    proof (cases "gh_repository w (owner ?P) (repo ?P)")
      case (Inl e)
      with v n show ?thesis by (simp add: ingestRepository_def ingestTry_def Let_def)
    next
      case g: (Inr info)
      show ?thesis
      proof (cases "createRepository w (owner ?P @ ''/'' @ repo ?P) url (full_name info) s")
        case (Inl e)
        with v n g show ?thesis by (simp add: ingestRepository_def ingestTry_def Let_def)
      next
        case (Inr p)
        then obtain row s1 where c: "createRepository w (owner ?P @ ''/'' @ repo ?P) url (full_name info) s = Inr (row, s1)"
          by (cases p) simp
        from createRepository_row [OF c]
        have row: "r_github_url row = url" and s1: "repositories s1 = repositories s @ [row]" by simp_all
        have "repositories (snd (ingestRepository w url opts s)) = repositories s1"
          using ingestAfterRow_repositories [of w "owner ?P" "repo ?P" info opts row s1]
          unfolding ingest_after_row_written [OF v n g c]
          by (auto split: prod.splits sum.splits dest!: setAnalysisStatus_frame)
        with row s1 v show ?thesis by auto
      qed
    qed
  qed
qed

text \<open>
  C2. When a row with the URL is in the relational store, \<open>ingestRepository\<close> fails and
  leaves all stores as they were; for a URL that parses, the error is the
  already-exists error. A URL reaches the store only through \<open>ingestRepository\<close>, which
  writes it after parsing it: a call on a URL that an earlier call has written fails
  with the already-exists error and changes nothing, and a call that succeeded has
  written its URL.
\<close>

theorem ingest_dedup_guard:
  "(getRepositoryByUrl s url \<noteq> None \<longrightarrow> (\<exists>e. ingestRepository w url opts s = (Inl e, s))) \<and>
   (getRepositoryByUrl s url \<noteq> None \<and> isValid (parseRepositoryUrl (JsString url)) \<longrightarrow>
      ingestRepository w url opts s = (Inl ''Repository already exists in database'', s)) \<and>
   (getRepositoryByUrl s0 url = None \<and>
    getRepositoryByUrl (snd (ingestRepository w0 url opts0 s0)) url \<noteq> None \<longrightarrow>
      ingestRepository w url opts (snd (ingestRepository w0 url opts0 s0)) =
        (Inl ''Repository already exists in database'', snd (ingestRepository w0 url opts0 s0))) \<and>
   (getRepositoryByUrl s0 url = None \<and> fst (ingestRepository w0 url opts0 s0) = Inr res \<longrightarrow>
      getRepositoryByUrl (snd (ingestRepository w0 url opts0 s0)) url \<noteq> None)"
proof -
  have a: "\<exists>e. ingestRepository w url opts s = (Inl e, s)" if "getRepositoryByUrl s url \<noteq> None"
    using that by (cases "isValid (parseRepositoryUrl (JsString url))") (auto simp: ingest_no_row)
  have b: "ingestRepository w url opts s = (Inl ''Repository already exists in database'', s)"
    if "getRepositoryByUrl s url \<noteq> None" "isValid (parseRepositoryUrl (JsString url))" for s
    using that by (auto simp: ingest_no_row)
  let ?s1 = "snd (ingestRepository w0 url opts0 s0)"
  have c: "ingestRepository w url opts ?s1 = (Inl ''Repository already exists in database'', ?s1)"
    if n: "getRepositoryByUrl s0 url = None" and e: "getRepositoryByUrl ?s1 url \<noteq> None"
  proof -
    from ingest_repositories [of w0 url opts0 s0] n e
    have v: "isValid (parseRepositoryUrl (JsString url))"
      by (auto simp: getRepositoryByUrl_def)
    show ?thesis by (rule b [OF e v])
  qed
  have d: "getRepositoryByUrl ?s1 url \<noteq> None"
    if n: "getRepositoryByUrl s0 url = None" and r: "fst (ingestRepository w0 url opts0 s0) = Inr res"
  proof -
    from ingest_repositories [of w0 url opts0 s0] r
    obtain row where "r_github_url row = url" "repositories ?s1 = repositories s0 @ [row]"
      by auto
    with n show ?thesis by (simp add: getRepositoryByUrl_def find_append_cases)
  qed
  from a b c d show ?thesis by blast
qed

theorem ingest_dedup_guard_witness:
  "getRepositoryByUrl emptyStorage ''https://github.com/octo/demo'' = None \<and>
   (\<exists>res s1. ingestRepository (exampleWorld (Inr exampleBatch) noFault noFault noFault)
                ''https://github.com/octo/demo'' None emptyStorage = (Inr res, s1) \<and>
      length (repositories s1) = 1 \<and>
      ingestRepository (exampleWorld (Inr exampleBatch) noFault noFault noFault)
                ''https://github.com/octo/demo'' None s1 =
        (Inl ''Repository already exists in database'', s1))"
proof -
  let ?w = "exampleWorld (Inr exampleBatch) noFault noFault noFault"
  let ?url = "''https://github.com/octo/demo''"
  let ?run = "ingestRepository ?w ?url None emptyStorage"
  have n: "getRepositoryByUrl emptyStorage ?url = None" by code_simp
  have "\<not> isl (fst ?run)" by code_simp
  then obtain res where r: "fst ?run = Inr res" by (cases "fst ?run") simp_all
  have len: "length (repositories (snd ?run)) = 1" by code_simp
  note G = ingest_dedup_guard [of "snd ?run" ?url ?w None emptyStorage ?w None res]
  from G n r have e: "getRepositoryByUrl (snd ?run) ?url \<noteq> None" by blast
  from G n e have "ingestRepository ?w ?url None (snd ?run) =
      (Inl ''Repository already exists in database'', snd ?run)" by blast
  with n r len show ?thesis by (metis prod.collapse)
qed

lemma ingestAfterRow_finishes:
  assumes "setAnalysisStatus w (own @ ''/'' @ rp) (statusRecord w (own @ ''/'' @ rp) St_analyzing None) s1 = Inr s2"
    and "getLearningCommits w own rp
            (Some (str_or (case opts of None \<Rightarrow> None | Some x \<Rightarrow> opt_branch x) (default_branch info)))
            (Some (num_or (case opts of None \<Rightarrow> None | Some x \<Rightarrow> opt_commitLimit x) 50)) = Inr batch"
    and "kv_put_fault w St_completed = None"
    and "looped = ingestLoop w (own @ ''/'' @ rp) 0 (zip batch (analyzeCommits batch))
            (\<lparr> repository = row, res_commits = [], learningCommits = 0, totalCommits = length batch,
                res_errors = [] \<rparr>, s2)"
  shows "ingestAfterRow w own rp info opts row s1 =
           (Inr (fst looped),
            (snd looped)\<lparr>kv := AList.update (''analysis:'' @ own @ ''/'' @ rp)
                                  (statusRecord w (own @ ''/'' @ rp) St_completed None) (kv (snd looped))\<rparr>)"
  using assms by (simp add: ingestAfterRow_def Let_def setAnalysisStatus_cases)

lemma ingestCommit_contents:
  "res_commits (fst (ingestCommit w rid i gc an rs)) =
     res_commits (fst rs) @
       (if rowFailed (roundOutcome w rid i gc an (snd rs)) then [] else [storedRow w rid gc]) \<and>
   res_errors (fst (ingestCommit w rid i gc an rs)) =
     res_errors (fst rs) @ errorEntries gc (roundOutcome w rid i gc an (snd rs)) \<and>
   learningCommits (fst (ingestCommit w rid i gc an rs)) =
     learningCommits (fst rs) +
       (if roundOutcome w rid i gc an (snd rs) = Stored \<and> files gc \<noteq> None \<and> isLearningWorthy an
        then 1 else 0) \<and>
   commits (snd (ingestCommit w rid i gc an rs)) =
     commits (snd rs) @
       (if rowFailed (roundOutcome w rid i gc an (snd rs)) then [] else [storedRow w rid gc])"
  by (cases rs)
     (auto simp: ingestCommit_def roundOutcome_def createCommit_def storeCommitDiff_def Let_def
        rowFailed_def errorEntries_def storedRow_def
        split: sum.splits option.splits prod.splits if_splits)

lemma ingestLoop_contents:
  "res_commits (fst (ingestLoop w rid i zs rs)) =
     res_commits (fst rs) @
       map (\<lambda>(z, out). storedRow w rid (fst z))
         (filter (\<lambda>(z, out). \<not> rowFailed out) (zip zs (batchOutcomes w rid i zs rs))) \<and>
   res_errors (fst (ingestLoop w rid i zs rs)) =
     res_errors (fst rs) @
       concat (map (\<lambda>(z, out). errorEntries (fst z) out) (zip zs (batchOutcomes w rid i zs rs))) \<and>
   learningCommits (fst (ingestLoop w rid i zs rs)) =
     learningCommits (fst rs) +
       length (filter (\<lambda>(z, out). out = Stored \<and> files (fst z) \<noteq> None \<and> isLearningWorthy (snd z))
                 (zip zs (batchOutcomes w rid i zs rs))) \<and>
   commits (snd (ingestLoop w rid i zs rs)) =
     commits (snd rs) @
       map (\<lambda>(z, out). storedRow w rid (fst z))
         (filter (\<lambda>(z, out). \<not> rowFailed out) (zip zs (batchOutcomes w rid i zs rs))) \<and>
   length (batchOutcomes w rid i zs rs) = length zs"
proof (induction zs arbitrary: i rs)
  case Nil
  show ?case by simp
next
  case (Cons a zs)
  obtain gc an where a: "a = (gc, an)" by (cases a)
  note ih = Cons.IH [of "Suc i" "ingestCommit w rid i gc an rs"]
  note st = ingestCommit_contents [of w rid i gc an rs]
  show ?case unfolding a using ih st by simp
qed

lemma zip_with_analyses:
  "zip (zip batch (map f batch)) outs = map (\<lambda>(gc, out). ((gc, f gc), out)) (zip batch outs)"
proof (induction batch arbitrary: outs)
  case Nil
  show ?case by simp
next
  case (Cons a batch)
  then show ?case by (cases outs) simp_all
qed

lemma outcome_counts:
  assumes "length xs = length outs"
  shows "length (filter (\<lambda>(x, out). \<not> rowFailed out) (zip xs outs)) + length (filter rowFailed outs) = length outs \<and>
         length (concat (map (\<lambda>(x, out). errorEntries x out) (zip xs outs))) =
           length (filter rowFailed outs) + length (filter diffFailed outs)"
  using assms
  by (induct rule: list_induct2)
     (auto simp: rowFailed_def diffFailed_def errorEntries_def split: round_outcome.splits)

text \<open>
  C1. When the run reaches the batch of N commits and the final status write succeeds,
  \<open>ingestRepository\<close> returns a result: no failure of a commit's writes ends the loop.
  \<open>totalCommits\<close> is N. \<open>commits\<close> holds, in the order of the batch, the stored row
  of each commit whose row write succeeded, and these rows are what the run has added
  to the commit table. \<open>errors\<close> holds, in the order of the batch, one entry for each
  commit one of whose writes failed, made of the commit's hash and the message of the
  error. \<open>learningCommits\<close> counts the commits that are learning-worthy, listed with
  their files, and written without a failure. With exactly one failed commit: if its
  row write failed, \<open>commits\<close> has N - 1 entries and \<open>errors\<close> one; if its diff write
  failed, its row is already in \<open>commits\<close>, which has N entries, and \<open>errors\<close> has
  one.
\<close>

theorem ingest_partial_failure:
  assumes "isValid (parseRepositoryUrl (JsString url))"
    and "getRepositoryByUrl s url = None"
    and "gh_repository w (owner (parseRepositoryUrl (JsString url))) (repo (parseRepositoryUrl (JsString url))) = Inr info"
    and "repoId = owner (parseRepositoryUrl (JsString url)) @ ''/'' @ repo (parseRepositoryUrl (JsString url))"
    and "createRepository w repoId url (full_name info) s = Inr (row, s1)"
    and "setAnalysisStatus w repoId (statusRecord w repoId St_analyzing None) s1 = Inr s2"
    and "getLearningCommits w (owner (parseRepositoryUrl (JsString url))) (repo (parseRepositoryUrl (JsString url)))
            (Some (str_or (case opts of None \<Rightarrow> None | Some x \<Rightarrow> opt_branch x) (default_branch info)))
            (Some (num_or (case opts of None \<Rightarrow> None | Some x \<Rightarrow> opt_commitLimit x) 50)) = Inr batch"
    and "kv_put_fault w St_completed = None"
    and "outcomes = batchOutcomes w repoId 0 (zip batch (analyzeCommits batch))
            (\<lparr> repository = row, res_commits = [], learningCommits = 0, totalCommits = length batch,
                res_errors = [] \<rparr>, s2)"
  shows "\<exists>res s'. ingestRepository w url opts s = (Inr res, s') \<and>
           repository res = row \<and>
           totalCommits res = length batch \<and> length outcomes = length batch \<and>
           res_commits res =
             map (\<lambda>(gc, out). storedRow w repoId gc)
               (filter (\<lambda>(gc, out). \<not> rowFailed out) (zip batch outcomes)) \<and>
           res_errors res =
             concat (map (\<lambda>(gc, out). errorEntries gc out) (zip batch outcomes)) \<and>
           learningCommits res =
             length (filter (\<lambda>(gc, out). out = Stored \<and> files gc \<noteq> None \<and> isLearningWorthy (analyzeCommit gc))
                       (zip batch outcomes)) \<and>
           commits s' = commits s @ res_commits res \<and>
           (length (filter rowFailed outcomes) = 1 \<and> length (filter diffFailed outcomes) = 0 \<longrightarrow>
              length (res_commits res) = length batch - 1 \<and> length (res_errors res) = 1) \<and>
           (length (filter rowFailed outcomes) = 0 \<and> length (filter diffFailed outcomes) = 1 \<longrightarrow>
              length (res_commits res) = length batch \<and> length (res_errors res) = 1)"
proof -
  let ?P = "parseRepositoryUrl (JsString url)"
  let ?r0 = "\<lparr> repository = row, res_commits = [], learningCommits = 0, totalCommits = length batch,
                res_errors = [] \<rparr>"
  let ?zs = "zip batch (analyzeCommits batch)"
  let ?looped = "ingestLoop w repoId 0 ?zs (?r0, s2)"
  let ?res = "fst ?looped"
  let ?s' = "(snd ?looped)\<lparr>kv := AList.update (''analysis:'' @ repoId)
                                  (statusRecord w repoId St_completed None) (kv (snd ?looped))\<rparr>"
  note fin = ingestAfterRow_finishes [OF assms(6) [unfolded assms(4)] assms(7) assms(8), of ?looped row,
      unfolded assms(4) [symmetric], OF refl]
  note top = ingest_after_row_written [OF assms(1) assms(2) assms(3) assms(5) [unfolded assms(4)], of opts]
  have run: "ingestRepository w url opts s = (Inr ?res, ?s')"
    unfolding top fin by (simp add: assms(4))
  note cnt = ingestLoop_contents [of w repoId 0 ?zs "(?r0, s2)", folded assms(9)]
  have z: "zip ?zs outcomes = map (\<lambda>(gc, out). ((gc, analyzeCommit gc), out)) (zip batch outcomes)"
    unfolding analyzeCommits_def by (rule zip_with_analyses)
  have len: "length outcomes = length batch"
    using cnt by (simp add: analyzeCommits_def)
  have frame: "totalCommits ?res = length batch" "repository ?res = row"
    using ingestLoop_frame [of w repoId 0 ?zs "(?r0, s2)"] by simp_all
  have cm: "res_commits ?res =
             map (\<lambda>(gc, out). storedRow w repoId gc)
               (filter (\<lambda>(gc, out). \<not> rowFailed out) (zip batch outcomes))"
    using cnt unfolding z by (simp add: filter_map comp_def split_def)
  have er: "res_errors ?res = concat (map (\<lambda>(gc, out). errorEntries gc out) (zip batch outcomes))"
    using cnt unfolding z by (simp add: comp_def split_def)
  have lc: "learningCommits ?res =
             length (filter (\<lambda>(gc, out). out = Stored \<and> files gc \<noteq> None \<and> isLearningWorthy (analyzeCommit gc))
                       (zip batch outcomes))"
    using cnt unfolding z by (simp add: filter_map comp_def split_def)
  from status_after_write [OF assms(6)] createRepository_row [OF assms(5)]
  have s2: "commits s2 = commits s" by simp
  have st: "commits ?s' = commits s @ res_commits ?res"
    using cnt unfolding z cm by (simp add: filter_map comp_def split_def s2)
  note oc = outcome_counts [OF len [symmetric]]
  have lcm: "length (res_commits ?res) + length (filter rowFailed outcomes) = length batch"
    using oc len by (simp add: cm)
  have ler: "length (res_errors ?res) = length (filter rowFailed outcomes) + length (filter diffFailed outcomes)"
    using oc by (simp add: er)
  have one_row: "length (res_commits ?res) = length batch - 1 \<and> length (res_errors ?res) = 1"
    if "length (filter rowFailed outcomes) = 1" "length (filter diffFailed outcomes) = 0"
    using lcm ler that by arith
  have one_diff: "length (res_commits ?res) = length batch \<and> length (res_errors ?res) = 1"
    if "length (filter rowFailed outcomes) = 0" "length (filter diffFailed outcomes) = 1"
    using lcm ler that by arith
  have "ingestRepository w url opts s = (Inr ?res, ?s') \<and>
           repository ?res = row \<and>
           totalCommits ?res = length batch \<and> length outcomes = length batch \<and>
           res_commits ?res =
             map (\<lambda>(gc, out). storedRow w repoId gc)
               (filter (\<lambda>(gc, out). \<not> rowFailed out) (zip batch outcomes)) \<and>
           res_errors ?res =
             concat (map (\<lambda>(gc, out). errorEntries gc out) (zip batch outcomes)) \<and>
           learningCommits ?res =
             length (filter (\<lambda>(gc, out). out = Stored \<and> files gc \<noteq> None \<and> isLearningWorthy (analyzeCommit gc))
                       (zip batch outcomes)) \<and>
           commits ?s' = commits s @ res_commits ?res \<and>
           (length (filter rowFailed outcomes) = 1 \<and> length (filter diffFailed outcomes) = 0 \<longrightarrow>
              length (res_commits ?res) = length batch - 1 \<and> length (res_errors ?res) = 1) \<and>
           (length (filter rowFailed outcomes) = 0 \<and> length (filter diffFailed outcomes) = 1 \<longrightarrow>
              length (res_commits ?res) = length batch \<and> length (res_errors ?res) = 1)"
    using run frame len cm er lc st one_row one_diff by (intro conjI impI) (simp_all only: )
  then show ?thesis by (intro exI)
qed

theorem ingest_partial_failure_witness:
  "\<exists>res s'. ingestRepository (exampleWorld (Inr exampleBatch) (faultAt 1 ''D1 insert failed'') noFault noFault)
               ''https://github.com/octo/demo'' None emptyStorage = (Inr res, s') \<and>
     res_commits res =
       [\<lparr> c_id = ''octo/demo:aaa'', c_repo_id = ''octo/demo'', c_sha = ''aaa'',
          c_message = ''Add dark mode toggle'', c_author = ''a'', c_date = ''d'',
          c_created_at = ''2024-01-01T00:00:00Z'' \<rparr>] \<and>
     res_errors res = [''Failed to store commit bbb: Error: D1 insert failed''] \<and>
     learningCommits res = 1 \<and> totalCommits res = 2 \<and>
     commits s' = res_commits res \<and>
     length (res_commits res) = length exampleBatch - 1 \<and> length (res_errors res) = 1"
proof -
  let ?w = "exampleWorld (Inr exampleBatch) (faultAt 1 ''D1 insert failed'') noFault noFault"
  let ?url = "''https://github.com/octo/demo''"
  let ?P = "parseRepositoryUrl (JsString ?url)"
  let ?info = "\<lparr> gr_name = ''demo'', full_name = ''octo/demo'', default_branch = ''main'' \<rparr>"
  let ?row = "\<lparr> r_id = ''octo/demo'', r_github_url = ?url, r_name = ''octo/demo'',
                r_created_at = ''2024-01-01T00:00:00Z'' \<rparr>"
  let ?s1 = "emptyStorage\<lparr>repositories := [?row]\<rparr>"
  let ?s2 = "?s1\<lparr>kv := [(''analysis:octo/demo'', statusRecord ?w ''octo/demo'' St_analyzing None)]\<rparr>"
  let ?rid = "owner ?P @ ''/'' @ repo ?P"
  let ?os = "batchOutcomes ?w ?rid 0 (zip exampleBatch (analyzeCommits exampleBatch))
            (\<lparr> repository = ?row, res_commits = [], learningCommits = 0, totalCommits = length exampleBatch,
                res_errors = [] \<rparr>, ?s2)"
  have h1: "isValid ?P" by code_simp
  have h2: "getRepositoryByUrl emptyStorage ?url = None" by code_simp
  have h3: "gh_repository ?w (owner ?P) (repo ?P) = Inr ?info" by code_simp
  have h5: "createRepository ?w ?rid ?url (full_name ?info) emptyStorage = Inr (?row, ?s1)"
    by code_simp
  have h6: "setAnalysisStatus ?w ?rid (statusRecord ?w ?rid St_analyzing None) ?s1 = Inr ?s2"
    by code_simp
  have h7: "getLearningCommits ?w (owner ?P) (repo ?P)
            (Some (str_or (case None of None \<Rightarrow> None | Some x \<Rightarrow> opt_branch x) (default_branch ?info)))
            (Some (num_or (case None of None \<Rightarrow> None | Some x \<Rightarrow> opt_commitLimit x) 50)) = Inr exampleBatch"
    by code_simp
  have h8: "kv_put_fault ?w St_completed = None" by code_simp
  have os: "length (filter rowFailed ?os) = 1 \<and> length (filter diffFailed ?os) = 0"
    by code_simp
  have cs: "map (\<lambda>(gc, out). storedRow ?w ?rid gc)
               (filter (\<lambda>(gc, out). \<not> rowFailed out) (zip exampleBatch ?os)) =
       [\<lparr> c_id = ''octo/demo:aaa'', c_repo_id = ''octo/demo'', c_sha = ''aaa'',
          c_message = ''Add dark mode toggle'', c_author = ''a'', c_date = ''d'',
          c_created_at = ''2024-01-01T00:00:00Z'' \<rparr>]"
    by code_simp
  have es: "concat (map (\<lambda>(gc, out). errorEntries gc out) (zip exampleBatch ?os)) =
       [''Failed to store commit bbb: Error: D1 insert failed'']"
    by code_simp
  have ls: "length (filter (\<lambda>(gc, out). out = Stored \<and> files gc \<noteq> None \<and> isLearningWorthy (analyzeCommit gc))
                       (zip exampleBatch ?os)) = 1"
    by code_simp
  have n: "length exampleBatch = 2" "commits emptyStorage = []" by code_simp+
  from ingest_partial_failure [OF h1 h2 h3 refl h5 h6 h7 h8 refl, unfolded cs es ls]
  obtain res s' where r: "ingestRepository ?w ?url None emptyStorage = (Inr res, s')"
    and c: "res_commits res =
       [\<lparr> c_id = ''octo/demo:aaa'', c_repo_id = ''octo/demo'', c_sha = ''aaa'',
          c_message = ''Add dark mode toggle'', c_author = ''a'', c_date = ''d'',
          c_created_at = ''2024-01-01T00:00:00Z'' \<rparr>]"
    and e: "res_errors res = [''Failed to store commit bbb: Error: D1 insert failed'']"
    and l: "learningCommits res = 1" and t: "totalCommits res = length exampleBatch"
    and st: "commits s' = commits emptyStorage @ res_commits res"
    and one: "length (filter rowFailed ?os) = 1 \<and> length (filter diffFailed ?os) = 0 \<longrightarrow>
              length (res_commits res) = length exampleBatch - 1 \<and> length (res_errors res) = 1"
    by blast
  from one os have "length (res_commits res) = length exampleBatch - 1 \<and> length (res_errors res) = 1"
    by blast
  with r c e l t st show ?thesis by (auto simp: n)
qed

text \<open>
  C1 as stated fails: in a batch of two commits where the only write that fails is the
  diff write of the first, \<open>commits\<close> has two entries, not one.
\<close>

theorem ingest_diff_write_failure_keeps_commit:
  "fst (ingestRepository (exampleWorld (Inr exampleBatch) noFault (faultAt 0 ''R2 put failed'') noFault)
          ''https://github.com/octo/demo'' None emptyStorage) =
     Inr \<lparr> repository = \<lparr> r_id = ''octo/demo'', r_github_url = ''https://github.com/octo/demo'',
                           r_name = ''octo/demo'', r_created_at = ''2024-01-01T00:00:00Z'' \<rparr>,
           res_commits =
             [\<lparr> c_id = ''octo/demo:aaa'', c_repo_id = ''octo/demo'', c_sha = ''aaa'',
                 c_message = ''Add dark mode toggle'', c_author = ''a'', c_date = ''d'',
                 c_created_at = ''2024-01-01T00:00:00Z'' \<rparr>,
              \<lparr> c_id = ''octo/demo:bbb'', c_repo_id = ''octo/demo'', c_sha = ''bbb'',
                 c_message = ''Fix off-by-one in pagination'', c_author = ''a'', c_date = ''d'',
                 c_created_at = ''2024-01-01T00:00:00Z'' \<rparr>],
           learningCommits = 0, totalCommits = 2,
           res_errors = [''Failed to store commit aaa: Error: R2 put failed''] \<rparr>"
  by code_simp

lemma ingestAfterRow_Inr:
  assumes "ingestAfterRow w own rp info opts row s1 = (Inr res, s')"
  shows "getAnalysisStatus s' (own @ ''/'' @ rp) = Some (statusRecord w (own @ ''/'' @ rp) St_completed None)"
  using assms
  by (auto simp: ingestAfterRow_def Let_def split: sum.splits dest: status_after_write)

lemma ingestAfterRow_Inl:
  assumes "ingestAfterRow w own rp info opts row s1 = (Inl x, s')"
  shows "getAnalysisStatus s' (own @ ''/'' @ rp) =
           (if kv_put_fault w St_analyzing = None
            then Some (statusRecord w (own @ ''/'' @ rp) St_analyzing None)
            else getAnalysisStatus s1 (own @ ''/'' @ rp))"
proof -
  have loop: "kv (snd (ingestLoop w rid i batch rs)) = kv (snd rs)" for rid i batch rs
    using ingestLoop_frame [of w rid i batch rs] by blast
  show ?thesis
    using assms
    by (auto simp: ingestAfterRow_def Let_def setAnalysisStatus_cases getAnalysisStatus_def
          update_conv' loop split: sum.splits option.splits)
qed

text \<open>
  C7. Once the repository row is written: a run that returns a result has set the
  status \<open>completed\<close>; a run that fails, and whose status write in the handler succeeds,
  has set the status \<open>error\<close> with the message of the error it throws, and has changed
  nothing else of what the \<open>try\<close> block left; when that write fails, the run throws
  the error of the write instead and the stores are exactly as the \<open>try\<close> block left
  them, so that the status is \<open>analyzing\<close> if that status was written, and what it
  was before the run otherwise. The run returns a result whenever the two status writes
  of the \<open>try\<close> block and the commit listing succeed, whatever happens to the writes
  of the single commits.
\<close>

theorem analysis_status_after_ingest:
  assumes "isValid (parseRepositoryUrl (JsString url))"
    and "getRepositoryByUrl s url = None"
    and "gh_repository w (owner (parseRepositoryUrl (JsString url))) (repo (parseRepositoryUrl (JsString url))) = Inr info"
    and "repoId = owner (parseRepositoryUrl (JsString url)) @ ''/'' @ repo (parseRepositoryUrl (JsString url))"
    and "createRepository w repoId url (full_name info) s = Inr (row, s1)"
    and "tried = ingestAfterRow w (owner (parseRepositoryUrl (JsString url))) (repo (parseRepositoryUrl (JsString url)))
                   info opts row s1"
  shows "(fst (ingestRepository w url opts s) = Inr res \<longrightarrow>
            getAnalysisStatus (snd (ingestRepository w url opts s)) repoId =
              Some (statusRecord w repoId St_completed None)) \<and>
         (fst (ingestRepository w url opts s) = Inl e \<and> kv_put_fault w St_error = None \<longrightarrow>
            fst tried = Inl e \<and>
            getAnalysisStatus (snd (ingestRepository w url opts s)) repoId =
              Some (statusRecord w repoId St_error (Some e)) \<and>
            snd (ingestRepository w url opts s) =
              (snd tried)\<lparr>kv := AList.update (''analysis:'' @ repoId) (statusRecord w repoId St_error (Some e))
                                    (kv (snd tried))\<rparr>) \<and>
         (fst (ingestRepository w url opts s) = Inl e \<and> kv_put_fault w St_error \<noteq> None \<longrightarrow>
            kv_put_fault w St_error = Some e \<and>
            snd (ingestRepository w url opts s) = snd tried \<and>
            getAnalysisStatus (snd (ingestRepository w url opts s)) repoId =
              (if kv_put_fault w St_analyzing = None
               then Some (statusRecord w repoId St_analyzing None)
               else getAnalysisStatus s repoId)) \<and>
         (kv_put_fault w St_analyzing = None \<and> kv_put_fault w St_completed = None \<and>
          getLearningCommits w (owner (parseRepositoryUrl (JsString url))) (repo (parseRepositoryUrl (JsString url)))
            (Some (str_or (case opts of None \<Rightarrow> None | Some x \<Rightarrow> opt_branch x) (default_branch info)))
            (Some (num_or (case opts of None \<Rightarrow> None | Some x \<Rightarrow> opt_commitLimit x) 50)) = Inr batch \<longrightarrow>
            (\<exists>r. fst (ingestRepository w url opts s) = Inr r))"
proof -
  let ?P = "parseRepositoryUrl (JsString url)"
  note top = ingest_after_row_written [OF assms(1) assms(2) assms(3) assms(5) [unfolded assms(4)], of opts]
  from createRepository_row [OF assms(5)] have rid: "r_id row = repoId"
    and s1: "s1 = s\<lparr>repositories := repositories s @ [row]\<rparr>" by simp_all
  have before: "getAnalysisStatus s1 repoId = getAnalysisStatus s repoId"
    by (simp add: s1 getAnalysisStatus_def)
  obtain out s' where ar: "ingestAfterRow w (owner ?P) (repo ?P) info opts row s1 = (out, s')"
    by (cases "ingestAfterRow w (owner ?P) (repo ?P) info opts row s1")
  have tr: "fst tried = out" "snd tried = s'" by (simp_all add: assms(6) ar)
  have a: "getAnalysisStatus (snd (ingestRepository w url opts s)) repoId =
              Some (statusRecord w repoId St_completed None)"
    if "fst (ingestRepository w url opts s) = Inr res"
  proof (cases out)
    case (Inr r)
    with ar have "getAnalysisStatus s' repoId = Some (statusRecord w repoId St_completed None)"
      unfolding assms(4) by (intro ingestAfterRow_Inr) simp
    then show ?thesis unfolding top ar Inr by simp
  next
    case (Inl x)
    with that show ?thesis unfolding top ar by (simp split: sum.splits)
  qed
  have b: "fst tried = Inl e \<and>
           getAnalysisStatus (snd (ingestRepository w url opts s)) repoId =
              Some (statusRecord w repoId St_error (Some e)) \<and>
           snd (ingestRepository w url opts s) =
              (snd tried)\<lparr>kv := AList.update (''analysis:'' @ repoId) (statusRecord w repoId St_error (Some e))
                                    (kv (snd tried))\<rparr>"
    if "fst (ingestRepository w url opts s) = Inl e" "kv_put_fault w St_error = None"
  proof (cases out)
    case (Inr r)
    with that show ?thesis unfolding top ar by simp
  next
    case (Inl x)
    with that show ?thesis unfolding top ar rid tr
      by (simp add: setAnalysisStatus_cases getAnalysisStatus_def update_conv')
  qed
  have c: "kv_put_fault w St_error = Some e \<and>
           snd (ingestRepository w url opts s) = snd tried \<and>
           getAnalysisStatus (snd (ingestRepository w url opts s)) repoId =
              (if kv_put_fault w St_analyzing = None
               then Some (statusRecord w repoId St_analyzing None)
               else getAnalysisStatus s repoId)"
    if "fst (ingestRepository w url opts s) = Inl e" "kv_put_fault w St_error \<noteq> None"
  proof (cases out)
    case (Inr r)
    with that show ?thesis unfolding top ar by simp
  next
    case (Inl x)
    from that(2) obtain e2 where f: "kv_put_fault w St_error = Some e2" by blast
    have run: "ingestRepository w url opts s = (Inl e2, s')"
      unfolding top ar Inl rid by (simp add: setAnalysisStatus_cases f)
    with that(1) have e: "e2 = e" by simp
    have st: "getAnalysisStatus s' repoId =
              (if kv_put_fault w St_analyzing = None
               then Some (statusRecord w repoId St_analyzing None)
               else getAnalysisStatus s1 repoId)"
      unfolding assms(4) by (rule ingestAfterRow_Inl [OF ar [unfolded Inl]])
    show ?thesis unfolding run tr using f e st before by simp
  qed
  have d: "\<exists>r. fst (ingestRepository w url opts s) = Inr r"
    if "kv_put_fault w St_analyzing = None" "kv_put_fault w St_completed = None"
      "getLearningCommits w (owner ?P) (repo ?P)
            (Some (str_or (case opts of None \<Rightarrow> None | Some x \<Rightarrow> opt_branch x) (default_branch info)))
            (Some (num_or (case opts of None \<Rightarrow> None | Some x \<Rightarrow> opt_commitLimit x) 50)) = Inr batch"
    unfolding top using that
    by (simp add: ingestAfterRow_def Let_def setAnalysisStatus_cases)
  from a b c d show ?thesis by blast
qed

theorem analysis_status_after_ingest_witness:
  "ingestRepository (exampleWorld (Inl ''GitHub API error (500): boom'') noFault noFault noFault)
       ''https://github.com/octo/demo'' None emptyStorage =
     (Inl ''GitHub API error (500): boom'',
      emptyStorage\<lparr>
        repositories := [\<lparr> r_id = ''octo/demo'', r_github_url = ''https://github.com/octo/demo'',
                           r_name = ''octo/demo'', r_created_at = ''2024-01-01T00:00:00Z'' \<rparr>],
        kv := [(''analysis:octo/demo'',
                \<lparr> st_repo_id = ''octo/demo'', st_status = St_error,
                  st_error_message = Some ''GitHub API error (500): boom'',
                  st_started_at = ''2024-01-01T00:00:00Z'', st_updated_at = ''2024-01-01T00:00:00Z'' \<rparr>)]\<rparr>) \<and>
   map_option st_status
     (getAnalysisStatus
        (snd (ingestRepository (exampleWorld (Inr exampleBatch) (faultAt 1 ''D1 insert failed'')
                 (faultAt 0 ''R2 put failed'') noFault)
              ''https://github.com/octo/demo'' None emptyStorage))
        ''octo/demo'') = Some St_completed \<and>
   getAnalysisStatus
     (snd (ingestRepository
             (exampleWorld (Inl ''GitHub API error (500): boom'') noFault noFault (faultAt St_error ''KV put failed''))
             ''https://github.com/octo/demo'' None emptyStorage))
     ''octo/demo'' =
     Some \<lparr> st_repo_id = ''octo/demo'', st_status = St_analyzing, st_error_message = None,
            st_started_at = ''2024-01-01T00:00:00Z'', st_updated_at = ''2024-01-01T00:00:00Z'' \<rparr>"
proof -
  let ?url = "''https://github.com/octo/demo''"
  let ?P = "parseRepositoryUrl (JsString ?url)"
  let ?info = "\<lparr> gr_name = ''demo'', full_name = ''octo/demo'', default_branch = ''main'' \<rparr>"
  let ?row = "\<lparr> r_id = ''octo/demo'', r_github_url = ?url, r_name = ''octo/demo'',
                r_created_at = ''2024-01-01T00:00:00Z'' \<rparr>"
  let ?s1 = "emptyStorage\<lparr>repositories := [?row]\<rparr>"
  let ?w1 = "exampleWorld (Inl ''GitHub API error (500): boom'') noFault noFault noFault"
  let ?w2 = "exampleWorld (Inr exampleBatch) (faultAt 1 ''D1 insert failed'') (faultAt 0 ''R2 put failed'') noFault"
  let ?w3 = "exampleWorld (Inl ''GitHub API error (500): boom'') noFault noFault (faultAt St_error ''KV put failed'')"
  have h1: "isValid ?P" by code_simp
  have h2: "getRepositoryByUrl emptyStorage ?url = None" by code_simp
  have h3: "gh_repository ?w1 (owner ?P) (repo ?P) = Inr ?info" "gh_repository ?w2 (owner ?P) (repo ?P) = Inr ?info"
      "gh_repository ?w3 (owner ?P) (repo ?P) = Inr ?info"
    by code_simp+
  have h5: "createRepository ?w1 (owner ?P @ ''/'' @ repo ?P) ?url (full_name ?info) emptyStorage = Inr (?row, ?s1)"
     "createRepository ?w2 (owner ?P @ ''/'' @ repo ?P) ?url (full_name ?info) emptyStorage = Inr (?row, ?s1)"
     "createRepository ?w3 (owner ?P @ ''/'' @ repo ?P) ?url (full_name ?info) emptyStorage = Inr (?row, ?s1)"
    by code_simp+
  have rid: "owner ?P @ ''/'' @ repo ?P = ''octo/demo''" by code_simp
  have f1: "fst (ingestRepository ?w1 ?url None emptyStorage) = Inl ''GitHub API error (500): boom''"
    by code_simp
  have k1: "kv_put_fault ?w1 St_error = None" by code_simp
  have fr: "repositories (snd (ingestRepository ?w1 ?url None emptyStorage)) = [?row]"
      "commits (snd (ingestRepository ?w1 ?url None emptyStorage)) = []"
      "tutorials (snd (ingestRepository ?w1 ?url None emptyStorage)) = []"
      "learner_sessions (snd (ingestRepository ?w1 ?url None emptyStorage)) = []"
      "r2_diffs (snd (ingestRepository ?w1 ?url None emptyStorage)) = []"
      "r2_tutorial_content (snd (ingestRepository ?w1 ?url None emptyStorage)) = []"
      "length (kv (snd (ingestRepository ?w1 ?url None emptyStorage))) = 1"
      "map fst (kv (snd (ingestRepository ?w1 ?url None emptyStorage))) = [''analysis:octo/demo'']"
    by code_simp+
  note T1 = analysis_status_after_ingest [OF h1 h2 h3(1) refl h5(1) refl, of None _ "''GitHub API error (500): boom''"]
  from T1 [THEN conjunct2, THEN conjunct1, rule_format, OF conjI [OF f1 k1]]
  have st: "getAnalysisStatus (snd (ingestRepository ?w1 ?url None emptyStorage)) ''octo/demo'' =
      Some (statusRecord ?w1 ''octo/demo'' St_error (Some ''GitHub API error (500): boom''))"
    unfolding rid by blast
  have sr: "statusRecord ?w1 ''octo/demo'' St_error (Some ''GitHub API error (500): boom'') =
      \<lparr> st_repo_id = ''octo/demo'', st_status = St_error,
                  st_error_message = Some ''GitHub API error (500): boom'',
                  st_started_at = ''2024-01-01T00:00:00Z'', st_updated_at = ''2024-01-01T00:00:00Z'' \<rparr>"
    by code_simp
  have kvv: "kv (snd (ingestRepository ?w1 ?url None emptyStorage)) =
     [(''analysis:octo/demo'', \<lparr> st_repo_id = ''octo/demo'', st_status = St_error,
                  st_error_message = Some ''GitHub API error (500): boom'',
                  st_started_at = ''2024-01-01T00:00:00Z'', st_updated_at = ''2024-01-01T00:00:00Z'' \<rparr>)]"
  proof -
    obtain k v where kv1: "kv (snd (ingestRepository ?w1 ?url None emptyStorage)) = [(k, v)]"
      using fr(7) by (cases "kv (snd (ingestRepository ?w1 ?url None emptyStorage))") auto
    with fr(8) have "k = ''analysis:octo/demo''" by simp
    moreover from st kv1 this have "v = statusRecord ?w1 ''octo/demo'' St_error (Some ''GitHub API error (500): boom'')"
      by (simp add: getAnalysisStatus_def)
    ultimately show ?thesis using kv1 sr by simp
  qed
  have a: "ingestRepository ?w1 ?url None emptyStorage =
     (Inl ''GitHub API error (500): boom'', emptyStorage\<lparr> repositories := [?row],
        kv := [(''analysis:octo/demo'',
                \<lparr> st_repo_id = ''octo/demo'', st_status = St_error,
                  st_error_message = Some ''GitHub API error (500): boom'',
                  st_started_at = ''2024-01-01T00:00:00Z'', st_updated_at = ''2024-01-01T00:00:00Z'' \<rparr>)]\<rparr>)"
    using f1 fr(1-6) kvv
    by (cases "ingestRepository ?w1 ?url None emptyStorage")
       (simp add: emptyStorage_def storage.equality)
  have k2: "kv_put_fault ?w2 St_analyzing = None \<and> kv_put_fault ?w2 St_completed = None" by code_simp
  have h7: "getLearningCommits ?w2 (owner ?P) (repo ?P)
            (Some (str_or (case None of None \<Rightarrow> None | Some x \<Rightarrow> opt_branch x) (default_branch ?info)))
            (Some (num_or (case None of None \<Rightarrow> None | Some x \<Rightarrow> opt_commitLimit x) 50)) = Inr exampleBatch"
    by code_simp
  note T2 = analysis_status_after_ingest [OF h1 h2 h3(2) refl h5(2) refl, of None _ _ exampleBatch]
  from T2 k2 h7 obtain r where "fst (ingestRepository ?w2 ?url None emptyStorage) = Inr r" by blast
  with T2 [of r] have "getAnalysisStatus (snd (ingestRepository ?w2 ?url None emptyStorage)) ''octo/demo'' =
      Some (statusRecord ?w2 ''octo/demo'' St_completed None)"
    unfolding rid by blast
  then have b: "map_option st_status
     (getAnalysisStatus (snd (ingestRepository ?w2 ?url None emptyStorage)) ''octo/demo'') = Some St_completed"
    by simp
  have f3: "fst (ingestRepository ?w3 ?url None emptyStorage) = Inl ''KV put failed''" by code_simp
  have k3: "kv_put_fault ?w3 St_error \<noteq> None" by code_simp
  have k4: "kv_put_fault ?w3 St_analyzing = None" by code_simp
  have sa: "statusRecord ?w3 ''octo/demo'' St_analyzing None =
      \<lparr> st_repo_id = ''octo/demo'', st_status = St_analyzing, st_error_message = None,
        st_started_at = ''2024-01-01T00:00:00Z'', st_updated_at = ''2024-01-01T00:00:00Z'' \<rparr>"
    by code_simp
  note T3 = analysis_status_after_ingest [OF h1 h2 h3(3) refl h5(3) refl, of None _ "''KV put failed''"]
  from T3 [THEN conjunct2, THEN conjunct2, THEN conjunct1, rule_format, OF conjI [OF f3 k3],
      THEN conjunct2, THEN conjunct2]
  have c: "getAnalysisStatus (snd (ingestRepository ?w3 ?url None emptyStorage)) ''octo/demo'' =
     Some \<lparr> st_repo_id = ''octo/demo'', st_status = St_analyzing, st_error_message = None,
            st_started_at = ''2024-01-01T00:00:00Z'', st_updated_at = ''2024-01-01T00:00:00Z'' \<rparr>"
    unfolding rid by (simp add: k4 sa)
  from a b c show ?thesis by (intro conjI)
qed

text \<open>
  C7 as stated fails: when the commit listing fails after the status \<open>analyzing\<close> was
  written, and the status write of the handler fails too, the run ends with the error
  of that write and the status is still \<open>analyzing\<close>.
\<close>

theorem stale_analyzing_status:
  "fst (ingestRepository
          (exampleWorld (Inl ''GitHub API error (500): boom'') noFault noFault (faultAt St_error ''KV put failed''))
          ''https://github.com/octo/demo'' None emptyStorage) = Inl ''KV put failed'' \<and>
   getAnalysisStatus
     (snd (ingestRepository
          (exampleWorld (Inl ''GitHub API error (500): boom'') noFault noFault (faultAt St_error ''KV put failed''))
          ''https://github.com/octo/demo'' None emptyStorage)) ''octo/demo'' =
     Some \<lparr> st_repo_id = ''octo/demo'', st_status = St_analyzing, st_error_message = None,
            st_started_at = ''2024-01-01T00:00:00Z'', st_updated_at = ''2024-01-01T00:00:00Z'' \<rparr>"
  by code_simp

end
